theory Spec2Isabelle
  imports Complex_Main "HOL-Library.AList"
begin

section \<open>Data model (core/types.ts)\<close>

text \<open>
  The interfaces of \<^verbatim>\<open>core/types.ts\<close> become records. A field that is optional
  (\<^verbatim>\<open>?:\<close>) or nullable (\<^verbatim>\<open>| null\<close>) has an option type: the matcher never tells
  \<^verbatim>\<open>undefined\<close> from \<^verbatim>\<open>null\<close>, so both are \<open>None\<close>. Field names are the source's,
  behind a prefix per interface (several interfaces share \<^verbatim>\<open>id\<close>, \<^verbatim>\<open>nace_code\<close>,
  \<^verbatim>\<open>country_code\<close>).

  A JavaScript \<^verbatim>\<open>number\<close> is modelled as an exact rational: sums, means and the clamp
  are the ideal ones, without the rounding of IEEE doubles and without NaN. A string is a
  list of ASCII characters; dates are kept as their text.
\<close>

datatype scope = Scope1 | Scope2 | Scope3

datatype confidence_level = High | Medium | Low

datatype json = JNum rat | JStr string | JBool bool | JNull

record Transaction =
  tx_id :: string
  tx_supplier_name :: string
  tx_vat_number :: "string option"
  tx_account_code :: "string option"
  tx_amount :: rat
  tx_currency :: "string option"
  tx_description :: "string option"
  tx_supplier_country :: "string option"
  tx_date :: "string option"
  tx_category :: "string option"

record EmissionFactor =
  ef_id :: string
  ef_nace_code :: "string option"
  ef_category :: string
  ef_subcategory :: "string option"
  ef_exiobase_product_code :: "string option"
  ef_exiobase_product_name :: "string option"
  ef_country_code :: "string option"
  ef_country_name :: "string option"
  ef_emission_factor_kgco2e_per_eur :: rat
  ef_emission_factor_kgco2e_per_unit :: "rat option"
  ef_physical_unit :: "string option"
  ef_scope :: "scope option"
  ef_region :: "string option"
  ef_data_source :: "string option"
  ef_source_year :: "rat option"
  ef_confidence_level :: "confidence_level option"
  ef_total_output_eur :: "rat option"
  ef_num_countries :: "rat option"
  ef_metadata :: "(string \<times> json) list option"
  ef_is_active :: "bool option"
  ef_created_at :: "string option"
  ef_updated_at :: "string option"

datatype match_method =
  M_vat_lookup | M_account_mapping | M_supplier_mapping | M_manual | M_none

record MatchResult =
  mr_emissionFactor :: "EmissionFactor option"
  mr_naceCode :: "string option"
  mr_countryCode :: "string option"
  mr_productCode :: "string option"
  mr_confidence :: rat
  mr_tier :: "nat option"
  mr_method :: match_method
  mr_reasoning :: string
  mr_fallbackApplied :: bool
  mr_emissions :: "rat option"

record NACEEmissionFactor =
  nf_id :: string
  nf_nace_code :: string
  nf_nace_description :: "string option"
  nf_scope_1_factor :: "rat option"
  nf_scope_2_factor :: "rat option"
  nf_scope_3_factor :: "rat option"
  nf_source :: "string option"
  nf_source_year :: "rat option"
  nf_confidence_level :: "confidence_level option"
  nf_total_output_eur :: "rat option"
  nf_num_countries :: "rat option"
  nf_exiobase_sectors :: "(string \<times> json) list option"
  nf_created_at :: string
  nf_updated_at :: string

datatype mapping_source =
  Src_vat_lookup | Src_manual | Src_ai_suggested | Src_crowd_sourced | Src_user_verified

record SupplierNACEMapping =
  sm_id :: string
  sm_supplier_name_normalized :: string
  sm_vat_number :: "string option"
  sm_country_code :: "string option"
  sm_nace_code :: string
  sm_confidence_score :: rat
  sm_source :: "mapping_source option"
  sm_times_used :: rat
  sm_verified_by :: "string option"
  sm_verified_at :: "string option"
  sm_company_id :: "string option"
  sm_created_at :: string
  sm_updated_at :: string

record VATCache =
  vc_id :: string
  vc_vat_number :: string
  vc_country_code :: "string option"
  vc_company_name :: "string option"
  vc_nace_code :: "string option"
  vc_is_valid :: bool
  vc_validation_date :: "string option"
  vc_cached_at :: string
  vc_expires_at :: string
  vc_created_at :: string
  vc_updated_at :: string

record EmissionCategoryMapping =
  am_id :: string
  am_company_id :: string
  am_account_code :: string
  am_account_name :: "string option"
  am_nace_code :: "string option"
  am_emission_factor_id :: "string option"
  am_category :: "string option"
  am_notes :: "string option"
  am_created_by :: "string option"
  am_created_at :: string
  am_updated_at :: string

record EmissionFactorQuery =
  q_nace_code :: "string option"
  q_country_code :: "string option"
  q_country_codes :: "string list option"
  q_product_hint :: "string option"
  q_exiobase_product_code :: "string option"
  q_scope :: "scope option"
  q_is_active :: "bool option"
  q_confidence_level :: "confidence_level option"

record ConfidenceLevels =
  cl_tier1 :: rat
  cl_tier2 :: rat
  cl_tier3 :: rat
  cl_tier4 :: rat

record MethodConfidence =
  vat_lookup :: rat
  account_mapping :: rat
  supplier_mapping :: rat

record TierAdjustments =
  tier2 :: rat
  tier3 :: rat
  tier4 :: rat

record MatcherConfig =
  confidenceLevels :: ConfidenceLevels
  methodConfidence :: MethodConfidence
  tierAdjustments :: TierAdjustments
  enableLearning :: bool
  cacheVAT :: bool
  cacheTTL :: rat

subsection \<open>The repository (interface DatabaseAdapter)\<close>

text \<open>
  Every operation of the adapter is asynchronous and may reject. An operation is modelled
  as a function of its arguments and of the repository's state \<open>'s\<close>, returning the new
  state and either the value thrown (\<open>Inl\<close>) or the value resolved (\<open>Inr\<close>); the state is
  arbitrary, so an adapter may answer the same request differently each time.
  \<^verbatim>\<open>findEmissionFactors\<close> is declared to resolve to an array, but the matcher also guards
  against \<^verbatim>\<open>null\<close> (\<^verbatim>\<open>!factors\<close>), so its result is an optional list. The three
  optional \<^verbatim>\<open>set...\<close> operations are never called by the matcher and are left out.
\<close>

datatype db_error = DbError string

record 's DatabaseAdapter =
  findEmissionFactor ::
    "EmissionFactorQuery \<Rightarrow> 's \<Rightarrow> (db_error + EmissionFactor option) \<times> 's"
  findEmissionFactors ::
    "EmissionFactorQuery \<Rightarrow> 's \<Rightarrow> (db_error + EmissionFactor list option) \<times> 's"
  getEmissionFactorById ::
    "string \<Rightarrow> 's \<Rightarrow> (db_error + EmissionFactor option) \<times> 's"
  findNACEEmissionFactor ::
    "string \<Rightarrow> 's \<Rightarrow> (db_error + NACEEmissionFactor option) \<times> 's"
  getVATCache ::
    "string \<Rightarrow> 's \<Rightarrow> (db_error + VATCache option) \<times> 's"
  getAccountMapping ::
    "string \<Rightarrow> string \<Rightarrow> 's \<Rightarrow> (db_error + EmissionCategoryMapping option) \<times> 's"
  getSupplierMapping ::
    "string \<Rightarrow> 's \<Rightarrow> (db_error + SupplierNACEMapping option) \<times> 's"
  incrementSupplierUsage ::
    "string \<Rightarrow> 's \<Rightarrow> (db_error + unit) \<times> 's"

text \<open>
  The calls the matcher makes are observable: each awaited repository call appends the
  request and what came back to a trace, which the matcher itself never reads. A run
  starts in a world (repository state and trace so far) and ends in one, with the value
  returned or the error that aborted it.
\<close>

datatype call =
  FindEmissionFactor EmissionFactorQuery
  | FindEmissionFactors EmissionFactorQuery
  | GetEmissionFactorById string
  | FindNACEEmissionFactor string
  | GetVATCache string
  | GetAccountMapping string string
  | GetSupplierMapping string
  | IncrementSupplierUsage string

datatype reply =
  Threw db_error
  | GotFactor "EmissionFactor option"
  | GotFactors "EmissionFactor list option"
  | GotNACE "NACEEmissionFactor option"
  | GotVAT "VATCache option"
  | GotAccount "EmissionCategoryMapping option"
  | GotSupplier "SupplierNACEMapping option"
  | GotUnit

type_synonym event = "call \<times> reply"

type_synonym 's world = "'s \<times> event list"

type_synonym ('s, 'a) io = "'s world \<Rightarrow> (db_error + 'a) \<times> 's world"

definition return_io :: "'a \<Rightarrow> ('s, 'a) io" where
  "return_io x = (\<lambda>w. (Inr x, w))"

definition bind_io :: "('s, 'a) io \<Rightarrow> ('a \<Rightarrow> ('s, 'b) io) \<Rightarrow> ('s, 'b) io" where
  "bind_io m f = (\<lambda>w. case m w of (Inl e, w') \<Rightarrow> (Inl e, w') | (Inr x, w') \<Rightarrow> f x w')"

definition await :: "call \<Rightarrow> ('r \<Rightarrow> reply) \<Rightarrow> ('s \<Rightarrow> (db_error + 'r) \<times> 's) \<Rightarrow> ('s, 'r) io" where
  "await c got op = (\<lambda>(s, tr). case op s of
       (Inl e, s') \<Rightarrow> (Inl e, (s', tr @ [(c, Threw e)]))
     | (Inr r, s') \<Rightarrow> (Inr r, (s', tr @ [(c, got r)])))"

definition db_findEmissionFactor ::
  "'s DatabaseAdapter \<Rightarrow> EmissionFactorQuery \<Rightarrow> ('s, EmissionFactor option) io" where
  "db_findEmissionFactor db q = await (FindEmissionFactor q) GotFactor (findEmissionFactor db q)"

definition db_findEmissionFactors ::
  "'s DatabaseAdapter \<Rightarrow> EmissionFactorQuery \<Rightarrow> ('s, EmissionFactor list option) io" where
  "db_findEmissionFactors db q =
     await (FindEmissionFactors q) GotFactors (findEmissionFactors db q)"

definition db_getEmissionFactorById ::
  "'s DatabaseAdapter \<Rightarrow> string \<Rightarrow> ('s, EmissionFactor option) io" where
  "db_getEmissionFactorById db i =
     await (GetEmissionFactorById i) GotFactor (getEmissionFactorById db i)"

definition db_findNACEEmissionFactor ::
  "'s DatabaseAdapter \<Rightarrow> string \<Rightarrow> ('s, NACEEmissionFactor option) io" where
  "db_findNACEEmissionFactor db naceCode =
     await (FindNACEEmissionFactor naceCode) GotNACE (findNACEEmissionFactor db naceCode)"

definition db_getVATCache :: "'s DatabaseAdapter \<Rightarrow> string \<Rightarrow> ('s, VATCache option) io" where
  "db_getVATCache db vatNumber = await (GetVATCache vatNumber) GotVAT (getVATCache db vatNumber)"

definition db_getAccountMapping ::
  "'s DatabaseAdapter \<Rightarrow> string \<Rightarrow> string \<Rightarrow> ('s, EmissionCategoryMapping option) io" where
  "db_getAccountMapping db companyId accountCode =
     await (GetAccountMapping companyId accountCode) GotAccount
       (getAccountMapping db companyId accountCode)"

definition db_getSupplierMapping ::
  "'s DatabaseAdapter \<Rightarrow> string \<Rightarrow> ('s, SupplierNACEMapping option) io" where
  "db_getSupplierMapping db name =
     await (GetSupplierMapping name) GotSupplier (getSupplierMapping db name)"

definition db_incrementSupplierUsage :: "'s DatabaseAdapter \<Rightarrow> string \<Rightarrow> ('s, unit) io" where
  "db_incrementSupplierUsage db supplierId =
     await (IncrementSupplierUsage supplierId) (\<lambda>_. GotUnit) (incrementSupplierUsage db supplierId)"

section \<open>Constants (core/matcher.ts, lines 23-63)\<close>

definition DEFAULT_CONFIG :: MatcherConfig where
  "DEFAULT_CONFIG =
     \<lparr>confidenceLevels = \<lparr>cl_tier1 = 0.95, cl_tier2 = 0.85, cl_tier3 = 0.75, cl_tier4 = 0.65\<rparr>,
      methodConfidence = \<lparr>vat_lookup = 0.95, account_mapping = 0.85, supplier_mapping = 0.75\<rparr>,
      tierAdjustments = \<lparr>tier2 = - 0.10, tier3 = - 0.20, tier4 = - 0.30\<rparr>,
      enableLearning = True,
      cacheVAT = True,
      cacheTTL = 24 * 60 * 60 * 1000\<rparr>"

definition VAT_COUNTRY_MAP :: "(string \<times> string) list" where
  "VAT_COUNTRY_MAP =
     [(''SE'', ''SE''), (''NO'', ''NO''), (''DK'', ''DK''), (''FI'', ''FI''), (''IS'', ''IS''),
      (''AT'', ''AT''), (''BE'', ''BE''), (''BG'', ''BG''), (''HR'', ''HR''), (''CY'', ''CY''),
      (''CZ'', ''CZ''), (''DE'', ''DE''), (''EE'', ''EE''), (''GR'', ''GR''), (''ES'', ''ES''),
      (''FR'', ''FR''), (''HU'', ''HU''), (''IE'', ''IE''), (''IT'', ''IT''), (''LV'', ''LV''),
      (''LT'', ''LT''), (''LU'', ''LU''), (''MT'', ''MT''), (''NL'', ''NL''), (''PL'', ''PL''),
      (''PT'', ''PT''), (''RO'', ''RO''), (''SK'', ''SK''), (''SI'', ''SI''), (''GB'', ''GB''),
      (''CH'', ''CH''), (''US'', ''US''), (''CA'', ''CA''), (''AU'', ''AU''), (''JP'', ''JP''),
      (''CN'', ''CN''), (''IN'', ''IN''), (''BR'', ''BR''), (''MX'', ''MX''), (''ZA'', ''ZA''),
      (''KR'', ''KR''), (''TW'', ''TW''), (''ID'', ''ID''), (''TR'', ''TR''), (''RU'', ''RU'')]"

definition EU_COUNTRIES :: "string list" where
  "EU_COUNTRIES =
     [''AT'', ''BE'', ''BG'', ''HR'', ''CY'', ''CZ'', ''DK'', ''EE'', ''FI'', ''FR'',
      ''DE'', ''GR'', ''HU'', ''IE'', ''IT'', ''LV'', ''LT'', ''LU'', ''MT'', ''NL'',
      ''PL'', ''PT'', ''RO'', ''SK'', ''SI'', ''ES'', ''SE'']"

section \<open>JavaScript primitives the matcher relies on\<close>

text \<open>
  Truthiness of an optional string: \<^verbatim>\<open>undefined\<close>, \<^verbatim>\<open>null\<close> and \<^verbatim>\<open>""\<close> are falsy.
\<close>

definition truthy :: "string option \<Rightarrow> bool" where
  "truthy x = (case x of None \<Rightarrow> False | Some s \<Rightarrow> s \<noteq> [])"

text \<open>\<^verbatim>\<open>x || y\<close> on optional strings, and \<^verbatim>\<open>x || 0\<close> on optional numbers.\<close>

definition or_else :: "string option \<Rightarrow> string option \<Rightarrow> string option" where
  "or_else x y = (if truthy x then x else y)"

definition or_zero :: "rat option \<Rightarrow> rat" where
  "or_zero x = (case x of None \<Rightarrow> 0 | Some v \<Rightarrow> if v = 0 then 0 else v)"

text \<open>\<^verbatim>\<open>toLowerCase\<close> and \<^verbatim>\<open>toUpperCase\<close>, on the ASCII letters.\<close>

definition lower_letters :: string where
  "lower_letters = ''abcdefghijklmnopqrstuvwxyz''"

definition upper_letters :: string where
  "upper_letters = ''ABCDEFGHIJKLMNOPQRSTUVWXYZ''"

definition toLowerCase :: "string \<Rightarrow> string" where
  "toLowerCase s =
     map (\<lambda>c. case map_of (zip upper_letters lower_letters) c of Some l \<Rightarrow> l | None \<Rightarrow> c) s"

definition toUpperCase :: "string \<Rightarrow> string" where
  "toUpperCase s =
     map (\<lambda>c. case map_of (zip lower_letters upper_letters) c of Some u \<Rightarrow> u | None \<Rightarrow> c) s"

text \<open>\<^verbatim>\<open>text.includes(pattern)\<close>: the pattern occurs as a contiguous substring.\<close>

fun starts_with :: "string \<Rightarrow> string \<Rightarrow> bool" where
  "starts_with s [] = True"
| "starts_with [] (p # ps) = False"
| "starts_with (c # cs) (p # ps) = (c = p \<and> starts_with cs ps)"

fun includes_str :: "string \<Rightarrow> string \<Rightarrow> bool" where
  "includes_str [] p = (p = [])"
| "includes_str (c # cs) p = (starts_with (c # cs) p \<or> includes_str cs p)"

text \<open>White space as \<^verbatim>\<open>\s\<close> and \<^verbatim>\<open>trim\<close> see it, within ASCII.\<close>

definition is_space :: "char \<Rightarrow> bool" where
  "is_space c = (c \<in> set [CHR '' '', CHR 0x09, CHR 0x0A, CHR 0x0B, CHR 0x0C, CHR 0x0D])"

definition trim :: "string \<Rightarrow> string" where
  "trim s = rev (dropWhile is_space (rev (dropWhile is_space s)))"

text \<open>A length printed inside a template literal: the decimal digits of a natural number.\<close>

fun show_nat :: "nat \<Rightarrow> string" where
  "show_nat n =
     (if n < 10 then [''0123456789'' ! n]
      else show_nat (n div 10) @ [''0123456789'' ! (n mod 10)])"

declare show_nat.simps [simp del]

text \<open>The arrow of the reasoning strings (U+2192), as its UTF-8 bytes.\<close>

definition arrow :: string where
  "arrow = [CHR 0xE2, CHR 0x86, CHR 0x92]"

section \<open>Utility functions (lines 72-116)\<close>

definition getCountryFromVAT :: "string \<Rightarrow> string option" where
  "getCountryFromVAT vatNumber =
     (if vatNumber = [] \<or> length vatNumber < 2 then None
      else let prefix = toUpperCase (take 2 vatNumber)
           in or_else (map_of VAT_COUNTRY_MAP prefix) None)"

text \<open>
  \<^verbatim>\<open>normalizeSupplierName\<close>: after lowercasing, the regular expression
  \<^verbatim>\<open>\s*(ab|oy|...|pte)\s*$\<close> matches at the leftmost position from which the rest of the
  string is white space, one of the suffixes, and white space up to the end; that rest is
  removed, and the result trimmed.
\<close>

definition company_suffixes :: "string list" where
  "company_suffixes =
     [''ab'', ''oy'', ''as'', ''gmbh'', ''ltd'', ''llc'', ''inc'', ''corp'', ''sa'', ''srl'',
      ''bv'', ''ag'', ''nv'', ''bhd'', ''sdn'', ''pte'']"

definition matches_suffix :: "string \<Rightarrow> bool" where
  "matches_suffix s =
     (let rest = dropWhile is_space s
      in list_ex (\<lambda>suffix. starts_with rest suffix
                    \<and> list_all is_space (drop (length suffix) rest)) company_suffixes)"

fun strip_company_suffix :: "string \<Rightarrow> string" where
  "strip_company_suffix [] = []"
| "strip_company_suffix (c # cs) =
     (if matches_suffix (c # cs) then [] else c # strip_company_suffix cs)"

definition normalizeSupplierName :: "string \<Rightarrow> string" where
  "normalizeSupplierName name = trim (strip_company_suffix (toLowerCase name))"

definition push_if :: "bool \<Rightarrow> string \<Rightarrow> string list \<Rightarrow> string list" where
  "push_if b hint hints = (if b then hints @ [hint] else hints)"

definition extractProductHints :: "string option \<Rightarrow> string list" where
  "extractProductHints description =
     (if \<not> truthy description then []
      else let text = toLowerCase (the description);
               hints = [];
               hints = push_if (includes_str text ''wind'') ''wind'' hints;
               hints = push_if (includes_str text ''solar'') ''solar'' hints;
               hints = push_if (includes_str text ''hydro'') ''hydro'' hints;
               hints = push_if (includes_str text ''nuclear'') ''nuclear'' hints;
               hints = push_if (includes_str text ''coal'') ''coal'' hints;
               hints = push_if (includes_str text ''gas'') ''gas'' hints;
               hints = push_if (includes_str text ''electricity'') ''electricity'' hints;
               hints = push_if (includes_str text ''flight'' \<or> includes_str text ''airline'')
                         ''air transport'' hints;
               hints = push_if (includes_str text ''train'' \<or> includes_str text ''railway'')
                         ''rail'' hints;
               hints = push_if (includes_str text ''truck'' \<or> includes_str text ''freight'')
                         ''freight'' hints;
               hints = push_if (includes_str text ''biofuel'' \<or> includes_str text ''renewable'')
                         ''renewable'' hints;
               hints = push_if (includes_str text ''fossil'') ''fossil'' hints
           in hints)"

section \<open>Tier functions (lines 125-322)\<close>

text \<open>The query objects the tier functions build.\<close>

definition tier1_query :: "string \<Rightarrow> string \<Rightarrow> string option \<Rightarrow> EmissionFactorQuery" where
  "tier1_query naceCode countryCode hint =
     \<lparr>q_nace_code = Some naceCode, q_country_code = Some countryCode, q_country_codes = None,
      q_product_hint = hint, q_exiobase_product_code = None, q_scope = Some Scope3,
      q_is_active = Some True, q_confidence_level = None\<rparr>"

definition tier3_query :: "string \<Rightarrow> EmissionFactorQuery" where
  "tier3_query naceCode =
     \<lparr>q_nace_code = Some naceCode, q_country_code = None, q_country_codes = Some EU_COUNTRIES,
      q_product_hint = None, q_exiobase_product_code = None, q_scope = Some Scope3,
      q_is_active = Some True, q_confidence_level = None\<rparr>"

text \<open>The loop of tier 1 over the product hints (lines 133-142).\<close>

fun tier1_hints ::
  "string \<Rightarrow> string \<Rightarrow> 's DatabaseAdapter \<Rightarrow> string list \<Rightarrow> ('s, EmissionFactor option) io" where
  "tier1_hints naceCode countryCode db [] = return_io None"
| "tier1_hints naceCode countryCode db (hint # hints) =
     bind_io (db_findEmissionFactor db (tier1_query naceCode countryCode (Some hint)))
       (\<lambda>factor. case factor of
          Some f \<Rightarrow> return_io (Some f)
        | None \<Rightarrow> tier1_hints naceCode countryCode db hints)"

definition getEmissionFactorTier1 ::
  "string \<Rightarrow> string \<Rightarrow> 's DatabaseAdapter \<Rightarrow> string list option
     \<Rightarrow> ('s, EmissionFactor option) io" where
  "getEmissionFactorTier1 naceCode countryCode db productHints =
     bind_io
       (case productHints of
          Some (hint # hints) \<Rightarrow> tier1_hints naceCode countryCode db (hint # hints)
        | _ \<Rightarrow> return_io None)
       (\<lambda>found. case found of
          Some f \<Rightarrow> return_io (Some f)
        | None \<Rightarrow> db_findEmissionFactor db (tier1_query naceCode countryCode None))"

text \<open>
  The mean as the source computes it: \<^verbatim>\<open>reduce\<close> from 0, left to right, divided by the
  length.
\<close>

definition average_intensity :: "EmissionFactor list \<Rightarrow> rat" where
  "average_intensity factors =
     foldl (\<lambda>sum f. sum + ef_emission_factor_kgco2e_per_eur f) 0 factors
       / of_nat (length factors)"

text \<open>
  \<^verbatim>\<open>{ ...factors[0].metadata, k1: v1, ... }\<close>: the entries of the first row's metadata
  (none when it has no metadata), then each key set in turn.
\<close>

definition spread_metadata :: "EmissionFactor \<Rightarrow> (string \<times> json) list" where
  "spread_metadata f = (case ef_metadata f of None \<Rightarrow> [] | Some m \<Rightarrow> m)"

text \<open>
  Tiers 2 to 4 each await one query and then build their answer without further calls;
  what they build from the query's result is a function of its own (lines 169-190,
  207-230 and 242-261).
\<close>

definition tier2_factor :: "EmissionFactor list option \<Rightarrow> EmissionFactor option" where
  "tier2_factor factors =
     (case factors of
        None \<Rightarrow> None
      | Some [] \<Rightarrow> None
      | Some (first # others) \<Rightarrow>
          (let avgEmissionFactor = average_intensity (first # others);
               n = length (first # others)
           in Some (first
                \<lparr>ef_emission_factor_kgco2e_per_eur := avgEmissionFactor,
                 ef_exiobase_product_code := None,
                 ef_exiobase_product_name :=
                   Some (''Country Average ('' @ show_nat n @ '' products)''),
                 ef_confidence_level := Some Medium,
                 ef_metadata := Some
                   (AList.update ''fallback_reason''
                      (JStr ''No exact product match, using country average'')
                   (AList.update ''num_products_averaged'' (JNum (of_nat n))
                   (AList.update ''tier'' (JNum 2) (spread_metadata first))))\<rparr>)))"

definition getEmissionFactorTier2 ::
  "string \<Rightarrow> string \<Rightarrow> 's DatabaseAdapter \<Rightarrow> ('s, EmissionFactor option) io" where
  "getEmissionFactorTier2 naceCode countryCode db =
     bind_io (db_findEmissionFactors db (tier1_query naceCode countryCode None))
       (\<lambda>factors. return_io (tier2_factor factors))"

definition tier3_factor :: "EmissionFactor list option \<Rightarrow> EmissionFactor option" where
  "tier3_factor factors =
     (case factors of
        None \<Rightarrow> None
      | Some [] \<Rightarrow> None
      | Some (first # others) \<Rightarrow>
          (let avgEmissionFactor = average_intensity (first # others);
               n = length (first # others)
           in Some (first
                \<lparr>ef_emission_factor_kgco2e_per_eur := avgEmissionFactor,
                 ef_country_code := Some ''EU'',
                 ef_country_name := Some ''European Union (Average)'',
                 ef_exiobase_product_code := None,
                 ef_exiobase_product_name := Some (''EU Average ('' @ show_nat n @ '' factors)''),
                 ef_confidence_level := Some Medium,
                 ef_metadata := Some
                   (AList.update ''fallback_reason''
                      (JStr ''No country-specific data, using EU average'')
                   (AList.update ''num_factors_averaged'' (JNum (of_nat n))
                   (AList.update ''tier'' (JNum 3) (spread_metadata first))))\<rparr>)))"

definition getEmissionFactorTier3 ::
  "string \<Rightarrow> 's DatabaseAdapter \<Rightarrow> ('s, EmissionFactor option) io" where
  "getEmissionFactorTier3 naceCode db =
     bind_io (db_findEmissionFactors db (tier3_query naceCode))
       (\<lambda>factors. return_io (tier3_factor factors))"

definition tier4_factor :: "string \<Rightarrow> NACEEmissionFactor option \<Rightarrow> EmissionFactor option" where
  "tier4_factor naceCode naceFactors =
     (case naceFactors of
        None \<Rightarrow> None
      | Some nf \<Rightarrow> Some
          \<lparr>ef_id = nf_id nf,
           ef_nace_code = Some (nf_nace_code nf),
           ef_category =
             (if truthy (nf_nace_description nf) then the (nf_nace_description nf)
              else ''NACE '' @ naceCode),
           ef_subcategory = None,
           ef_exiobase_product_code = None,
           ef_exiobase_product_name = Some ''Sector Average'',
           ef_country_code = Some ''XX'',
           ef_country_name = Some ''Global Average'',
           ef_emission_factor_kgco2e_per_eur = or_zero (nf_scope_3_factor nf),
           ef_emission_factor_kgco2e_per_unit = None,
           ef_physical_unit = None,
           ef_scope = Some Scope3,
           ef_region = None,
           ef_data_source = or_else (nf_source nf) (Some ''EXIOBASE_AGGREGATED''),
           ef_source_year = None,
           ef_confidence_level = Some Low,
           ef_total_output_eur = None,
           ef_num_countries = None,
           ef_metadata = Some
             [(''tier'', JNum 4),
              (''fallback_reason'',
               JStr ''No detailed data available, using global sector average'')],
           ef_is_active = None,
           ef_created_at = None,
           ef_updated_at = None\<rparr>)"

definition getEmissionFactorTier4 ::
  "string \<Rightarrow> 's DatabaseAdapter \<Rightarrow> ('s, EmissionFactor option) io" where
  "getEmissionFactorTier4 naceCode db =
     bind_io (db_findNACEEmissionFactor db naceCode)
       (\<lambda>naceFactors. return_io (tier4_factor naceCode naceFactors))"

text \<open>
  \<^verbatim>\<open>getEmissionFactorWithFallback\<close> returns the object \<^verbatim>\<open>{factor, tier, reasoning}\<close>,
  here a triple. Lines 297-321 (tiers 3 and 4) are reached from two places, so they are a
  definition of their own.
\<close>

type_synonym tiered = "EmissionFactor option \<times> nat option \<times> string"

definition fallback_from_tier3 :: "string \<Rightarrow> 's DatabaseAdapter \<Rightarrow> ('s, tiered) io" where
  "fallback_from_tier3 naceCode db =
     bind_io (getEmissionFactorTier3 naceCode db)
       (\<lambda>tier3. case tier3 of
          Some f \<Rightarrow> return_io (Some f, Some 3,
            ''EU average for NACE '' @ naceCode @ '' (country-averaged across EU)'')
        | None \<Rightarrow>
            bind_io (getEmissionFactorTier4 naceCode db)
              (\<lambda>tier4. case tier4 of
                 Some f \<Rightarrow> return_io (Some f, Some 4,
                   ''Global sector average for NACE '' @ naceCode)
               | None \<Rightarrow> return_io (None, None,
                   ''No emission factor found for NACE '' @ naceCode)))"

definition getEmissionFactorWithFallback ::
  "string \<Rightarrow> 's DatabaseAdapter \<Rightarrow> MatcherConfig \<Rightarrow> string option \<Rightarrow> string list option
     \<Rightarrow> ('s, tiered) io" where
  "getEmissionFactorWithFallback naceCode db config countryCode productHints =
     (if truthy countryCode then
        bind_io (getEmissionFactorTier1 naceCode (the countryCode) db productHints)
          (\<lambda>tier1. case tier1 of
             Some f \<Rightarrow>
               (let productInfo = (case productHints of
                                     Some (hint # hints) \<Rightarrow> '' + '' @ hint
                                   | _ \<Rightarrow> [])
                in return_io (Some f, Some 1,
                     ''Exact match: '' @ the countryCode @ '' + NACE '' @ naceCode @ productInfo))
           | None \<Rightarrow>
               bind_io (getEmissionFactorTier2 naceCode (the countryCode) db)
                 (\<lambda>tier2. case tier2 of
                    Some f \<Rightarrow> return_io (Some f, Some 2,
                      ''Country average for '' @ the countryCode @ '' + NACE '' @ naceCode
                        @ '' (product-averaged)'')
                  | None \<Rightarrow> fallback_from_tier3 naceCode db))
      else fallback_from_tier3 naceCode db)"

section \<open>Matching strategies (lines 331-396)\<close>

definition matchByVAT ::
  "Transaction \<Rightarrow> 's DatabaseAdapter \<Rightarrow> MatcherConfig
     \<Rightarrow> ('s, string option \<times> string option) io" where
  "matchByVAT transaction db config =
     (if \<not> truthy (tx_vat_number transaction) then return_io (None, None)
      else let vat = the (tx_vat_number transaction);
               countryCode = getCountryFromVAT vat
           in if cacheVAT config then
                bind_io (db_getVATCache db vat)
                  (\<lambda>cached. case cached of
                     Some c \<Rightarrow>
                       if vc_is_valid c
                       then return_io (vc_nace_code c, or_else countryCode (vc_country_code c))
                       else return_io (None, countryCode)
                   | None \<Rightarrow> return_io (None, countryCode))
              else return_io (None, countryCode))"

definition matchByAccountCode ::
  "Transaction \<Rightarrow> string option \<Rightarrow> 's DatabaseAdapter
     \<Rightarrow> ('s, string option \<times> string option) io" where
  "matchByAccountCode transaction companyId db =
     (if \<not> truthy (tx_account_code transaction) \<or> \<not> truthy companyId
      then return_io (None, None)
      else bind_io (db_getAccountMapping db (the companyId) (the (tx_account_code transaction)))
             (\<lambda>mapping. case mapping of
                None \<Rightarrow> return_io (None, None)
              | Some m \<Rightarrow> return_io (am_nace_code m, am_emission_factor_id m)))"

definition matchBySupplierName ::
  "Transaction \<Rightarrow> 's DatabaseAdapter \<Rightarrow> MatcherConfig \<Rightarrow> ('s, string option) io" where
  "matchBySupplierName transaction db config =
     (if tx_supplier_name transaction = [] then return_io None
      else let normalized = normalizeSupplierName (tx_supplier_name transaction)
           in bind_io (db_getSupplierMapping db normalized)
                (\<lambda>mapping. case mapping of
                   None \<Rightarrow> return_io None
                 | Some m \<Rightarrow>
                     bind_io (if enableLearning config \<and> sm_id m \<noteq> []
                              then db_incrementSupplierUsage db (sm_id m)
                              else return_io ())
                       (\<lambda>_. return_io (Some (sm_nace_code m)))))"

section \<open>The main matching function (lines 411-546)\<close>

text \<open>
  The key \<^verbatim>\<open>`tier${tier}`\<close> read from \<^verbatim>\<open>config.tierAdjustments\<close>: the object has the
  keys tier2, tier3 and tier4 only.
\<close>

definition tierAdjustments_at :: "TierAdjustments \<Rightarrow> nat option \<Rightarrow> rat option" where
  "tierAdjustments_at adj tier =
     (if tier = Some 2 then Some (tier2 adj)
      else if tier = Some 3 then Some (tier3 adj)
      else if tier = Some 4 then Some (tier4 adj)
      else None)"

text \<open>
  The result built when a strategy's NACE code resolved to a factor. The source writes
  this block three times (lines 434-449, 484-499, 515-530); the copies differ in the
  method, the base confidence read from the configuration and the label in front of the
  reasoning.
\<close>

definition tiered_result ::
  "match_method \<Rightarrow> rat \<Rightarrow> string \<Rightarrow> MatcherConfig \<Rightarrow> string \<Rightarrow> string option
     \<Rightarrow> EmissionFactor \<Rightarrow> nat option \<Rightarrow> string \<Rightarrow> MatchResult" where
  "tiered_result method baseConfidence label config naceCode countryCode factor tier reasoning =
     (let tierAdjustment =
            (if tier = Some 1 then 0 else or_zero (tierAdjustments_at (tierAdjustments config) tier));
          confidence = max 0 (min 1 (baseConfidence + tierAdjustment))
      in \<lparr>mr_emissionFactor = Some factor,
          mr_naceCode = Some naceCode,
          mr_countryCode = or_else countryCode None,
          mr_productCode = ef_exiobase_product_code factor,
          mr_confidence = confidence,
          mr_tier = tier,
          mr_method = method,
          mr_reasoning = label @ reasoning,
          mr_fallbackApplied = (tier \<noteq> Some 1),
          mr_emissions = None\<rparr>)"

definition no_match :: MatchResult where
  "no_match =
     \<lparr>mr_emissionFactor = None,
      mr_naceCode = None,
      mr_countryCode = None,
      mr_productCode = None,
      mr_confidence = 0,
      mr_tier = None,
      mr_method = M_none,
      mr_reasoning = ''No automatic match found. Manual assignment required.'',
      mr_fallbackApplied = False,
      mr_emissions = None\<rparr>"

text \<open>Strategy 3 and the no-match result (lines 504-545).\<close>

definition strategy_supplier ::
  "Transaction \<Rightarrow> 's DatabaseAdapter \<Rightarrow> MatcherConfig \<Rightarrow> string option \<Rightarrow> string list
     \<Rightarrow> ('s, MatchResult) io" where
  "strategy_supplier transaction db config countryCode productHints =
     bind_io (matchBySupplierName transaction db config)
       (\<lambda>naceCode.
          if truthy naceCode then
            bind_io (getEmissionFactorWithFallback (the naceCode) db config countryCode
                       (Some productHints))
              (\<lambda>(factor, tier, reasoning). case factor of
                 Some f \<Rightarrow> return_io
                   (tiered_result M_supplier_mapping (supplier_mapping (methodConfidence config))
                      (''Supplier name '' @ arrow @ '' '') config (the naceCode) countryCode
                      f tier reasoning)
               | None \<Rightarrow> return_io no_match)
          else return_io no_match)"

text \<open>
  Strategy 2 (lines 454-502), falling through to strategy 3: the result for a pre-mapped
  factor (lines 461-471), the tiering of the mapping's NACE code (lines 475-501), and the
  strategy itself, which tries the pre-mapped factor first.
\<close>

definition premapped_result ::
  "Transaction \<Rightarrow> MatcherConfig \<Rightarrow> string option \<Rightarrow> EmissionFactor \<Rightarrow> MatchResult" where
  "premapped_result transaction config naceCode factor =
     \<lparr>mr_emissionFactor = Some factor,
      mr_naceCode = naceCode,
      mr_countryCode = ef_country_code factor,
      mr_productCode = ef_exiobase_product_code factor,
      mr_confidence = account_mapping (methodConfidence config),
      mr_tier = Some 1,
      mr_method = M_account_mapping,
      mr_reasoning = ''Account code '' @ the (tx_account_code transaction) @ '' '' @ arrow
                       @ '' Pre-mapped emission factor'',
      mr_fallbackApplied = False,
      mr_emissions = None\<rparr>"

definition account_by_nace ::
  "Transaction \<Rightarrow> 's DatabaseAdapter \<Rightarrow> MatcherConfig \<Rightarrow> string option \<Rightarrow> string list
     \<Rightarrow> string option \<Rightarrow> ('s, MatchResult) io" where
  "account_by_nace transaction db config countryCode productHints naceCode =
     (if truthy naceCode then
        bind_io (getEmissionFactorWithFallback (the naceCode) db config countryCode
                   (Some productHints))
          (\<lambda>(factor, tier, reasoning). case factor of
             Some f \<Rightarrow> return_io
               (tiered_result M_account_mapping (account_mapping (methodConfidence config))
                  (''Account code '' @ the (tx_account_code transaction) @ '' '' @ arrow @ '' '')
                  config (the naceCode) countryCode f tier reasoning)
           | None \<Rightarrow> strategy_supplier transaction db config countryCode productHints)
      else strategy_supplier transaction db config countryCode productHints)"

definition strategy_account ::
  "Transaction \<Rightarrow> 's DatabaseAdapter \<Rightarrow> string option \<Rightarrow> MatcherConfig \<Rightarrow> string option
     \<Rightarrow> string list \<Rightarrow> ('s, MatchResult) io" where
  "strategy_account transaction db companyId config countryCode productHints =
     (if truthy (tx_account_code transaction) \<and> truthy companyId then
        bind_io (matchByAccountCode transaction companyId db)
          (\<lambda>(naceCode, emissionFactorId).
             if truthy emissionFactorId then
               bind_io (db_getEmissionFactorById db (the emissionFactorId))
                 (\<lambda>factor. case factor of
                    Some f \<Rightarrow> return_io (premapped_result transaction config naceCode f)
                  | None \<Rightarrow>
                      account_by_nace transaction db config countryCode productHints naceCode)
             else account_by_nace transaction db config countryCode productHints naceCode)
      else strategy_supplier transaction db config countryCode productHints)"

text \<open>
  Strategy 1 once \<^verbatim>\<open>matchByVAT\<close> has answered and the country is settled (lines
  425-451), falling through to strategy 2.
\<close>

definition vat_by_nace ::
  "Transaction \<Rightarrow> 's DatabaseAdapter \<Rightarrow> string option \<Rightarrow> MatcherConfig \<Rightarrow> string option
     \<Rightarrow> string list \<Rightarrow> string option \<Rightarrow> ('s, MatchResult) io" where
  "vat_by_nace transaction db companyId config countryCode productHints naceCode =
     (if truthy naceCode then
        bind_io (getEmissionFactorWithFallback (the naceCode) db config countryCode
                   (Some productHints))
          (\<lambda>(factor, tier, reasoning). case factor of
             Some f \<Rightarrow> return_io
               (tiered_result M_vat_lookup (vat_lookup (methodConfidence config))
                  (''VAT lookup '' @ arrow @ '' '') config (the naceCode) countryCode
                  f tier reasoning)
           | None \<Rightarrow> strategy_account transaction db companyId config countryCode productHints)
      else strategy_account transaction db companyId config countryCode productHints)"

text \<open>
  \<^verbatim>\<open>matchTransaction\<close>: the product hints, the country (the transaction's own, else the
  one the VAT strategy found, lines 417-423), then the strategies in turn.
\<close>

definition matchTransaction ::
  "Transaction \<Rightarrow> 's DatabaseAdapter \<Rightarrow> string option \<Rightarrow> MatcherConfig \<Rightarrow> ('s, MatchResult) io" where
  "matchTransaction transaction db companyId config =
     (let productHints = extractProductHints (tx_description transaction);
          countryCode = tx_supplier_country transaction
      in if truthy (tx_vat_number transaction) then
           bind_io (matchByVAT transaction db config)
             (\<lambda>(naceCode, vatCountry).
                let countryCode = (if \<not> truthy countryCode \<and> truthy vatCountry
                                   then vatCountry else countryCode)
                in vat_by_nace transaction db companyId config countryCode productHints naceCode)
         else strategy_account transaction db companyId config countryCode productHints)"

text \<open>\<^verbatim>\<open>calculateEmissions\<close> (lines 555-563); the defaults are the caller's to pass.\<close>

definition calculateEmissions :: "rat \<Rightarrow> rat \<Rightarrow> string \<Rightarrow> rat \<Rightarrow> rat" where
  "calculateEmissions amount emissionFactorKgCO2ePerEur currency exchangeRate =
     (let amountInEur = (if currency = ''EUR'' then amount else amount * exchangeRate)
      in amountInEur * emissionFactorKgCO2ePerEur)"

section \<open>Vocabulary of the properties\<close>

subsection \<open>Runs and traces\<close>

text \<open>
  \<open>emits m Q\<close>: from every world, the run of \<open>m\<close> only appends to the trace, and its
  outcome and the events it appended satisfy \<open>Q\<close>. \<open>returns m P\<close>: every value \<open>m\<close>
  returns satisfies \<open>P\<close>.
\<close>

definition emits :: "('s, 'a) io \<Rightarrow> ((db_error + 'a) \<Rightarrow> event list \<Rightarrow> bool) \<Rightarrow> bool" where
  "emits m Q = (\<forall>s tr. \<exists>res s' new. m (s, tr) = (res, (s', tr @ new)) \<and> Q res new)"

definition returns :: "('s, 'a) io \<Rightarrow> ('a \<Rightarrow> bool) \<Rightarrow> bool" where
  "returns m P = (\<forall>w w' x. m w = (Inr x, w') \<longrightarrow> P x)"

text \<open>A reply that is an error; a trace in which no call threw.\<close>

fun threw :: "reply \<Rightarrow> bool" where
  "threw (Threw e) = True"
| "threw _ = False"

definition quiet :: "event list \<Rightarrow> bool" where
  "quiet tr = list_all (\<lambda>ev. \<not> threw (snd ev)) tr"

text \<open>
  An outcome is faithful to the events of its run when an error outcome is the error of
  the last call, no earlier call having thrown, and a returned value comes with no call
  having thrown.
\<close>

definition faithful :: "(db_error + 'a) \<Rightarrow> event list \<Rightarrow> bool" where
  "faithful res new =
     (case res of
        Inl e \<Rightarrow> new \<noteq> [] \<and> snd (last new) = Threw e \<and> quiet (butlast new)
      | Inr x \<Rightarrow> quiet new)"

text \<open>Every call of a run is one of a given kind.\<close>

definition only_calls :: "(call \<Rightarrow> bool) \<Rightarrow> (db_error + 'a) \<Rightarrow> event list \<Rightarrow> bool" where
  "only_calls P res new = list_all (\<lambda>ev. P (fst ev)) new"

text \<open>The calls of the account-code and supplier-name strategies.\<close>

fun later_strategy_call :: "call \<Rightarrow> bool" where
  "later_strategy_call (GetAccountMapping companyId accountCode) = True"
| "later_strategy_call (GetEmissionFactorById i) = True"
| "later_strategy_call (GetSupplierMapping name) = True"
| "later_strategy_call (IncrementSupplierUsage i) = True"
| "later_strategy_call _ = False"


subsection \<open>The country of a run\<close>






subsection \<open>Tiers\<close>

definition matched_tier :: "nat option \<Rightarrow> bool" where
  "matched_tier tier = (tier = Some 1 \<or> tier = Some 2 \<or> tier = Some 3 \<or> tier = Some 4)"

definition tier_known :: "tiered \<Rightarrow> bool" where
  "tier_known r = (case r of (factor, tier, reasoning) \<Rightarrow> factor \<noteq> None \<longrightarrow> matched_tier tier)"

text \<open>
  The queries of tier 1 in the order they are made: one per product hint, then the one
  without a hint. \<open>missed\<close> is each of them answered with null; \<open>no_rows\<close> is a set query
  answered with null or the empty array. \<open>country_tiers_missed\<close> is the trace of tiers 1
  and 2 both missing, which is empty when the country is unknown.
\<close>

definition tier1_calls :: "string \<Rightarrow> string \<Rightarrow> string list option \<Rightarrow> call list" where
  "tier1_calls naceCode countryCode productHints =
     map (\<lambda>hint. FindEmissionFactor (tier1_query naceCode countryCode (Some hint)))
       (case productHints of Some hints \<Rightarrow> hints | None \<Rightarrow> [])
     @ [FindEmissionFactor (tier1_query naceCode countryCode None)]"

definition missed :: "call list \<Rightarrow> event list" where
  "missed calls = map (\<lambda>c. (c, GotFactor None)) calls"

definition no_rows :: "EmissionFactor list option \<Rightarrow> bool" where
  "no_rows rows = (rows = None \<or> rows = Some [])"

definition country_tiers_missed ::
  "string \<Rightarrow> string option \<Rightarrow> string list option \<Rightarrow> EmissionFactor list option \<Rightarrow> event list" where
  "country_tiers_missed naceCode countryCode productHints rows2 =
     (if truthy countryCode
      then missed (tier1_calls naceCode (the countryCode) productHints)
           @ [(FindEmissionFactors (tier1_query naceCode (the countryCode) None), GotFactors rows2)]
      else [])"

text \<open>What C6 asks of a result: the flag against the tier, and the tier against the method.\<close>

definition flag_ok :: "MatchResult \<Rightarrow> bool" where
  "flag_ok r =
     (mr_fallbackApplied r = (mr_tier r = Some 2 \<or> mr_tier r = Some 3 \<or> mr_tier r = Some 4)
      \<and> (mr_tier r = None \<or> matched_tier (mr_tier r))
      \<and> (mr_tier r = None) = (mr_method r = M_none))"

subsection \<open>Confidence, as the specification words it\<close>


definition baseConfidence :: "MatcherConfig \<Rightarrow> match_method \<Rightarrow> rat" where
  "baseConfidence config method =
     (case method of
        M_vat_lookup \<Rightarrow> vat_lookup (methodConfidence config)
      | M_account_mapping \<Rightarrow> account_mapping (methodConfidence config)
      | M_supplier_mapping \<Rightarrow> supplier_mapping (methodConfidence config)
      | _ \<Rightarrow> 0)"



subsection \<open>Order in a sequence\<close>

text \<open>\<open>x\<close> occurs in the list, and \<open>y\<close> occurs somewhere after the first \<open>x\<close>.\<close>

definition appears_before :: "'a \<Rightarrow> 'a \<Rightarrow> 'a list \<Rightarrow> bool" where
  "appears_before x y xs = (x \<in> set xs \<and> y \<in> set (tl (dropWhile (\<lambda>z. z \<noteq> x) xs)))"

subsection \<open>What a run of the matcher came to\<close>

text \<open>
  The method, tier, confidence and fallback flag of the result a run returned; nothing
  when the run failed.
\<close>

definition outcome ::
  "(db_error + MatchResult) \<times> 'w \<Rightarrow> (match_method \<times> nat option \<times> rat \<times> bool) option" where
  "outcome run =
     (case fst run of
        Inl e \<Rightarrow> None
      | Inr r \<Rightarrow> Some (mr_method r, mr_tier r, mr_confidence r, mr_fallbackApplied r))"

section \<open>Example data\<close>

text \<open>
  The scenario of the matching guide: a Swedish company buys wind power from Vattenfall.
\<close>

definition wind_factor :: EmissionFactor where
  "wind_factor =
     \<lparr>ef_id = ''ef-se-wind'',
      ef_nace_code = Some ''35.11'',
      ef_category = ''Energy'',
      ef_subcategory = Some ''Electricity by wind'',
      ef_exiobase_product_code = Some ''p40.11.e'',
      ef_exiobase_product_name = Some ''Electricity by wind'',
      ef_country_code = Some ''SE'',
      ef_country_name = Some ''Sweden'',
      ef_emission_factor_kgco2e_per_eur = 0.012,
      ef_emission_factor_kgco2e_per_unit = None,
      ef_physical_unit = None,
      ef_scope = Some Scope3,
      ef_region = None,
      ef_data_source = Some ''EXIOBASE'',
      ef_source_year = Some 2022,
      ef_confidence_level = Some High,
      ef_total_output_eur = None,
      ef_num_countries = None,
      ef_metadata = None,
      ef_is_active = Some True,
      ef_created_at = None,
      ef_updated_at = None\<rparr>"

definition three_rows :: "EmissionFactor list" where
  "three_rows =
     [wind_factor\<lparr>ef_emission_factor_kgco2e_per_eur := 0.01\<rparr>,
      wind_factor\<lparr>ef_id := ''ef-se-hydro'', ef_emission_factor_kgco2e_per_eur := 0.02\<rparr>,
      wind_factor\<lparr>ef_id := ''ef-se-gas'', ef_emission_factor_kgco2e_per_eur := 0.03\<rparr>]"

definition vattenfall_tx :: Transaction where
  "vattenfall_tx =
     \<lparr>tx_id = ''txn_001'',
      tx_supplier_name = ''Vattenfall AB'',
      tx_vat_number = Some ''SE556036-2138'',
      tx_account_code = Some ''5910'',
      tx_amount = 25000,
      tx_currency = Some ''SEK'',
      tx_description = Some ''Monthly electricity - wind power'',
      tx_supplier_country = None,
      tx_date = None,
      tx_category = None\<rparr>"

definition vattenfall_vat :: VATCache where
  "vattenfall_vat =
     \<lparr>vc_id = ''vat-1'',
      vc_vat_number = ''SE556036-2138'',
      vc_country_code = Some ''SE'',
      vc_company_name = Some ''Vattenfall AB'',
      vc_nace_code = Some ''35.11'',
      vc_is_valid = True,
      vc_validation_date = None,
      vc_cached_at = ''2025-10-15T10:30:00Z'',
      vc_expires_at = ''2025-10-16T10:30:00Z'',
      vc_created_at = ''2025-10-15T10:30:00Z'',
      vc_updated_at = ''2025-10-15T10:30:00Z''\<rparr>"

definition account_5910 :: EmissionCategoryMapping where
  "account_5910 =
     \<lparr>am_id = ''map-1'',
      am_company_id = ''acme'',
      am_account_code = ''5910'',
      am_account_name = Some ''Electricity'',
      am_nace_code = Some ''35.11'',
      am_emission_factor_id = Some ''ef-se-wind'',
      am_category = None,
      am_notes = None,
      am_created_by = None,
      am_created_at = ''2025-01-01'',
      am_updated_at = ''2025-01-01''\<rparr>"

definition vattenfall_supplier :: SupplierNACEMapping where
  "vattenfall_supplier =
     \<lparr>sm_id = ''sup-1'',
      sm_supplier_name_normalized = ''vattenfall'',
      sm_vat_number = None,
      sm_country_code = Some ''SE'',
      sm_nace_code = ''35.11'',
      sm_confidence_score = 0.95,
      sm_source = Some Src_user_verified,
      sm_times_used = 127,
      sm_verified_by = None,
      sm_verified_at = None,
      sm_company_id = None,
      sm_created_at = ''2025-01-01'',
      sm_updated_at = ''2025-01-01''\<rparr>"

definition nace_3511 :: NACEEmissionFactor where
  "nace_3511 =
     \<lparr>nf_id = ''nace-3511'',
      nf_nace_code = ''35.11'',
      nf_nace_description = Some ''Production of electricity'',
      nf_scope_1_factor = None,
      nf_scope_2_factor = None,
      nf_scope_3_factor = None,
      nf_source = None,
      nf_source_year = None,
      nf_confidence_level = None,
      nf_total_output_eur = None,
      nf_num_countries = None,
      nf_exiobase_sectors = None,
      nf_created_at = ''2025-01-01'',
      nf_updated_at = ''2025-01-01''\<rparr>"

text \<open>
  Adapters over a state that counts the usage increments. \<open>empty_db\<close> finds nothing;
  \<open>guide_db\<close> knows the VAT number, the account, the supplier and the wind factor (which
  it finds under the hint \<^verbatim>\<open>wind\<close> only); \<open>rows_db\<close> has rows for every set query and no
  single factor; \<open>sector_db\<close> has the sector record only; \<open>supplier_db\<close> is \<open>guide_db\<close>
  without the VAT cache entry; \<open>down_db\<close> fails the supplier lookup.
\<close>

definition empty_db :: "nat DatabaseAdapter" where
  "empty_db =
     \<lparr>findEmissionFactor = (\<lambda>q s. (Inr None, s)),
      findEmissionFactors = (\<lambda>q s. (Inr (Some []), s)),
      getEmissionFactorById = (\<lambda>i s. (Inr None, s)),
      findNACEEmissionFactor = (\<lambda>n s. (Inr None, s)),
      getVATCache = (\<lambda>v s. (Inr None, s)),
      getAccountMapping = (\<lambda>c a s. (Inr None, s)),
      getSupplierMapping = (\<lambda>n s. (Inr None, s)),
      incrementSupplierUsage = (\<lambda>i s. (Inr (), Suc s))\<rparr>"

definition guide_db :: "nat DatabaseAdapter" where
  "guide_db = empty_db
     \<lparr>findEmissionFactor :=
        (\<lambda>q s. (Inr (if q_product_hint q = Some ''wind'' then Some wind_factor else None), s)),
      getEmissionFactorById :=
        (\<lambda>i s. (Inr (if i = ''ef-se-wind'' then Some wind_factor else None), s)),
      getVATCache :=
        (\<lambda>v s. (Inr (if v = ''SE556036-2138'' then Some vattenfall_vat else None), s)),
      getAccountMapping :=
        (\<lambda>c a s. (Inr (if c = ''acme'' \<and> a = ''5910'' then Some account_5910 else None), s)),
      getSupplierMapping :=
        (\<lambda>n s. (Inr (if n = ''vattenfall'' then Some vattenfall_supplier else None), s))\<rparr>"

definition supplier_db :: "nat DatabaseAdapter" where
  "supplier_db = guide_db \<lparr>getVATCache := (\<lambda>v s. (Inr None, s))\<rparr>"

definition rows_db :: "nat DatabaseAdapter" where
  "rows_db = empty_db \<lparr>findEmissionFactors := (\<lambda>q s. (Inr (Some three_rows), s))\<rparr>"

definition sector_db :: "nat DatabaseAdapter" where
  "sector_db = empty_db \<lparr>findNACEEmissionFactor := (\<lambda>n s. (Inr (Some nace_3511), s))\<rparr>"

definition down_db :: "nat DatabaseAdapter" where
  "down_db = empty_db
     \<lparr>getSupplierMapping := (\<lambda>n s. (Inl (DbError ''connection lost''), s))\<rparr>"

definition average_db :: "nat DatabaseAdapter" where
  "average_db = guide_db
     \<lparr>findEmissionFactor := (\<lambda>q s. (Inr None, s)),
      findEmissionFactors := (\<lambda>q s. (Inr (Some three_rows), s))\<rparr>"


section \<open>Reasoning about runs\<close>

lemmas db_calls =
  db_findEmissionFactor_def db_findEmissionFactors_def db_getEmissionFactorById_def
  db_findNACEEmissionFactor_def db_getVATCache_def db_getAccountMapping_def
  db_getSupplierMapping_def db_incrementSupplierUsage_def

subsection \<open>What a run that returned went through\<close>

lemma bind_io_Inr:
  "(bind_io m f w = (Inr y, w')) = (\<exists>x w1. m w = (Inr x, w1) \<and> f x w1 = (Inr y, w'))"
proof -
  obtain r1 w1 where m: "m w = (r1, w1)" by (cases "m w")
  show ?thesis by (cases r1) (simp_all add: bind_io_def m)
qed

lemma await_Inr:
  "(await c got op (s, tr) = (Inr r, (s', tr'))) = (op s = (Inr r, s') \<and> tr' = tr @ [(c, got r)])"
proof -
  obtain r1 s1 where op: "op s = (r1, s1)" by (cases "op s")
  show ?thesis by (cases r1) (auto simp: await_def op)
qed

lemma return_io_Inr: "(return_io x w = (Inr y, w')) = (y = x \<and> w' = w)"
  by (auto simp: return_io_def)

lemmas run_Inr = bind_io_Inr await_Inr return_io_Inr

subsection \<open>Rules for \<open>emits\<close>\<close>

lemma emitsD:
  assumes "emits m Q" "m (s, tr) = (res, (s', tr'))"
  shows "\<exists>new. tr' = tr @ new \<and> Q res new"
proof -
  from assms(1) obtain res0 s0 new where "m (s, tr) = (res0, (s0, tr @ new))" "Q res0 new"
    unfolding emits_def by blast
  with assms(2) show ?thesis by auto
qed

lemma emits_return: "Q (Inr x) [] \<Longrightarrow> emits (return_io x) Q"
  by (simp add: emits_def return_io_def)

lemma emits_await:
  assumes "\<And>e. Q (Inl e) [(c, Threw e)]" "\<And>r. Q (Inr r) [(c, got r)]"
  shows "emits (await c got op) Q"
  unfolding emits_def
proof (intro allI)
  fix s tr
  obtain r1 s1 where op: "op s = (r1, s1)" by (cases "op s")
  show "\<exists>res s' new. await c got op (s, tr) = (res, s', tr @ new) \<and> Q res new"
    using assms by (cases r1) (auto simp: await_def op)
qed

lemma emits_bind:
  assumes m: "emits m Q1"
    and err: "\<And>e n. Q1 (Inl e) n \<Longrightarrow> Q (Inl e) n"
    and f: "\<And>x n1. Q1 (Inr x) n1 \<Longrightarrow> emits (f x) (\<lambda>res n2. Q res (n1 @ n2))"
  shows "emits (bind_io m f) Q"
  unfolding emits_def
proof (intro allI)
  fix s tr
  from m obtain res1 s1 n1 where r1: "m (s, tr) = (res1, (s1, tr @ n1))" and q1: "Q1 res1 n1"
    unfolding emits_def by blast
  show "\<exists>res s' new. bind_io m f (s, tr) = (res, s', tr @ new) \<and> Q res new"
  proof (cases res1)
    case (Inl e)
    then show ?thesis using r1 q1 err by (auto simp: bind_io_def)
  next
    case (Inr x)
    with q1 f have "emits (f x) (\<lambda>res n2. Q res (n1 @ n2))" by blast
    then obtain res2 s2 n2 where r2: "f x (s1, tr @ n1) = (res2, (s2, (tr @ n1) @ n2))"
      and q2: "Q res2 (n1 @ n2)"
      unfolding emits_def by blast
    have "bind_io m f (s, tr) = (res2, (s2, tr @ (n1 @ n2)))"
      using r1 r2 Inr by (simp add: bind_io_def)
    with q2 show ?thesis by blast
  qed
qed

lemma emits_weaken: "emits m Q \<Longrightarrow> (\<And>res n. Q res n \<Longrightarrow> Q' res n) \<Longrightarrow> emits m Q'"
  unfolding emits_def by meson

subsection \<open>Rules for \<open>returns\<close>\<close>

lemma returnsD: "returns m P \<Longrightarrow> m w = (Inr x, w') \<Longrightarrow> P x"
  unfolding returns_def by blast

lemma returns_return: "P x \<Longrightarrow> returns (return_io x) P"
  by (simp add: returns_def return_io_def)

lemma returns_bind:
  assumes "returns m P1" "\<And>x. P1 x \<Longrightarrow> returns (f x) P"
  shows "returns (bind_io m f) P"
  unfolding returns_def
proof (intro allI impI)
  fix w w' y
  assume "bind_io m f w = (Inr y, w')"
  then obtain x w1 where "m w = (Inr x, w1)" "f x w1 = (Inr y, w')"
    by (auto simp: bind_io_Inr)
  with assms show "P y" unfolding returns_def by blast
qed

lemma returns_bind_any: "(\<And>x. returns (f x) P) \<Longrightarrow> returns (bind_io m f) P"
  by (rule returns_bind [where ?P1.0 = "\<lambda>_. True"]) (simp_all add: returns_def)

lemmas returns_after =
  returns_bind_any [where m = "matchByVAT t db cfg" for t db cfg]
  returns_bind_any [where m = "matchByAccountCode t cid db" for t cid db]
  returns_bind_any [where m = "matchBySupplierName t db cfg" for t db cfg]
  returns_bind_any [where m = "db_getEmissionFactorById db i" for db i]

section \<open>Product hints (C4)\<close>

lemma wind_power_hints:
  "extractProductHints (Some ''Monthly electricity - wind power'') = [''wind'', ''electricity'']"
  by code_simp

text \<open>
  C4, as stated, fails: in the sequence \<^verbatim>\<open>extractProductHints\<close> returns for
  "Monthly electricity - wind power", "electricity" does not appear before "wind".
\<close>

theorem hints_electricity_before_wind_counterexample:
  "\<not> appears_before ''electricity'' ''wind''
       (extractProductHints (Some ''Monthly electricity - wind power''))"
  unfolding wind_power_hints by (simp add: appears_before_def)

text \<open>
  C4, amended: \<^verbatim>\<open>extractProductHints\<close> applied to "Monthly electricity - wind power"
  returns exactly the sequence "wind", "electricity": it contains both hints, with "wind"
  before "electricity" (the scan tests the energy sources first and "electricity" last
  among the energy hints).
\<close>

theorem hints_wind_before_electricity:
  "extractProductHints (Some ''Monthly electricity - wind power'') = [''wind'', ''electricity'']
   \<and> appears_before ''wind'' ''electricity''
       (extractProductHints (Some ''Monthly electricity - wind power''))"
  unfolding wind_power_hints by (simp add: appears_before_def)

section \<open>Country and EU averages (C5)\<close>










section \<open>Tier fallback (C1)\<close>

subsection \<open>The trace of each tier\<close>

lemma tier1_hints_trace:
  "tier1_hints n c db hs (s, tr) = (Inr found, (s', tr')) \<Longrightarrow>
     (case found of
        None \<Rightarrow> tr' = tr @ missed (map (\<lambda>h. FindEmissionFactor (tier1_query n c (Some h))) hs)
      | Some f \<Rightarrow> \<exists>k<length hs.
          tr' = tr @ missed (map (\<lambda>h. FindEmissionFactor (tier1_query n c (Some h))) (take k hs))
                @ [(FindEmissionFactor (tier1_query n c (Some (hs ! k))), GotFactor (Some f))])"
proof (induction hs arbitrary: s tr)
  case Nil
  then show ?case by (auto simp: run_Inr missed_def)
next
  case (Cons h hs)
  let ?q = "\<lambda>h. FindEmissionFactor (tier1_query n c (Some h))"
  from Cons.prems obtain x s1 where
    rest: "(case x of Some f \<Rightarrow> return_io (Some f) | None \<Rightarrow> tier1_hints n c db hs)
             (s1, tr @ [(?q h, GotFactor x)]) = (Inr found, (s', tr'))"
    by (auto simp: run_Inr db_calls)
  show ?case
  proof (cases x)
    case (Some f)
    with rest have "found = Some f" "tr' = tr @ [(?q h, GotFactor x)]" by (auto simp: run_Inr)
    then show ?thesis using Some by (auto simp: missed_def intro!: exI [of _ 0])
  next
    case None
    with rest have run: "tier1_hints n c db hs (s1, tr @ [(?q h, GotFactor None)]) = (Inr found, (s', tr'))"
      by simp
    note ih = Cons.IH [OF run]
    show ?thesis
    proof (cases found)
      case None
      with ih show ?thesis by (simp add: missed_def)
    next
      case (Some f)
      with ih obtain k where k: "k < length hs"
        and tr': "tr' = (tr @ [(?q h, GotFactor None)]) @ missed (map ?q (take k hs))
                        @ [(?q (hs ! k), GotFactor (Some f))]"
        by auto
      show ?thesis using Some k tr'
        by (auto simp: missed_def intro!: exI [of _ "Suc k"])
    qed
  qed
qed

lemma tier1_trace:
  assumes "getEmissionFactorTier1 n c db ph (s, tr) = (Inr found, (s', tr'))"
  shows "case found of
           None \<Rightarrow> tr' = tr @ missed (tier1_calls n c ph)
         | Some f \<Rightarrow> \<exists>k<length (tier1_calls n c ph).
             tr' = tr @ missed (take k (tier1_calls n c ph))
                   @ [(tier1_calls n c ph ! k, GotFactor (Some f))]"
proof -
  let ?hs = "case ph of Some hints \<Rightarrow> hints | None \<Rightarrow> []"
  let ?q = "\<lambda>h. FindEmissionFactor (tier1_query n c (Some h))"
  let ?last = "FindEmissionFactor (tier1_query n c None)"
  have calls: "tier1_calls n c ph = map ?q ?hs @ [?last]" by (simp add: tier1_calls_def)
  have loop_eq: "(case ph of Some (hint # hints) \<Rightarrow> tier1_hints n c db (hint # hints)
                   | _ \<Rightarrow> return_io None) = tier1_hints n c db ?hs"
    by (auto split: option.splits list.splits)
  from assms obtain x s1 tr1 where
    loop: "tier1_hints n c db ?hs (s, tr) = (Inr x, (s1, tr1))"
    and rest: "(case x of Some f \<Rightarrow> return_io (Some f)
                | None \<Rightarrow> db_findEmissionFactor db (tier1_query n c None)) (s1, tr1)
                 = (Inr found, (s', tr'))"
    unfolding getEmissionFactorTier1_def loop_eq by (auto simp: bind_io_Inr)
  note lt = tier1_hints_trace [OF loop]
  show ?thesis
  proof (cases x)
    case (Some f)
    with rest have found: "found = Some f" and tr': "tr' = tr1" by (auto simp: run_Inr)
    from lt Some obtain k where k: "k < length ?hs"
      and tr1: "tr1 = tr @ missed (map ?q (take k ?hs)) @ [(?q (?hs ! k), GotFactor (Some f))]"
      by auto
    have "take k (tier1_calls n c ph) = map ?q (take k ?hs)"
      using k by (simp add: calls take_map)
    moreover have "tier1_calls n c ph ! k = ?q (?hs ! k)"
      using k by (simp add: calls nth_append)
    moreover have "k < length (tier1_calls n c ph)" using k by (simp add: calls)
    ultimately show ?thesis using found tr' tr1 by auto
  next
    case None
    with lt have tr1: "tr1 = tr @ missed (map ?q ?hs)" by simp
    from rest None have tr': "tr' = tr1 @ [(?last, GotFactor found)]"
      by (simp add: run_Inr db_calls)
    show ?thesis
    proof (cases found)
      case None
      then show ?thesis using tr' tr1 by (simp add: calls missed_def)
    next
      case (Some f)
      have "take (length ?hs) (tier1_calls n c ph) = map ?q ?hs" by (simp add: calls)
      moreover have "tier1_calls n c ph ! (length ?hs) = ?last"
        by (simp add: calls nth_append)
      moreover have "length ?hs < length (tier1_calls n c ph)" by (simp add: calls)
      ultimately show ?thesis using Some tr' tr1
        by (auto intro!: exI [of _ "length ?hs"])
    qed
  qed
qed

lemma tier2_trace:
  assumes "getEmissionFactorTier2 n c db (s, tr) = (Inr found, (s', tr'))"
  shows "\<exists>rows. tr' = tr @ [(FindEmissionFactors (tier1_query n c None), GotFactors rows)]
           \<and> found = tier2_factor rows"
  using assms by (auto simp: getEmissionFactorTier2_def run_Inr db_calls)

lemma tier3_trace:
  assumes "getEmissionFactorTier3 n db (s, tr) = (Inr found, (s', tr'))"
  shows "\<exists>rows. tr' = tr @ [(FindEmissionFactors (tier3_query n), GotFactors rows)]
           \<and> found = tier3_factor rows"
  using assms by (auto simp: getEmissionFactorTier3_def run_Inr db_calls)

lemma tier4_trace:
  assumes "getEmissionFactorTier4 n db (s, tr) = (Inr found, (s', tr'))"
  shows "\<exists>nf. tr' = tr @ [(FindNACEEmissionFactor n, GotNACE nf)]
           \<and> found = tier4_factor n nf"
  using assms by (auto simp: getEmissionFactorTier4_def run_Inr db_calls)

lemma tier2_factor_None: "(tier2_factor rows = None) = no_rows rows"
  by (auto simp: tier2_factor_def no_rows_def Let_def split: option.splits list.splits)

lemma tier3_factor_None: "(tier3_factor rows = None) = no_rows rows"
  by (auto simp: tier3_factor_def no_rows_def Let_def split: option.splits list.splits)

lemma tier4_factor_None: "(tier4_factor n nf = None) = (nf = None)"
  by (auto simp: tier4_factor_def split: option.splits)

lemma from_tier3_trace:
  assumes "fallback_from_tier3 n db (s, tr) = (Inr (factor, tier, reasoning), (s', tr'))"
  shows "\<exists>rows3. 
           (tier = Some 3 \<and> \<not> no_rows rows3 \<and> factor = tier3_factor rows3
              \<and> tr' = tr @ [(FindEmissionFactors (tier3_query n), GotFactors rows3)])
         \<or> (no_rows rows3 \<and> (\<exists>nf. factor = tier4_factor n nf
              \<and> tier = (if nf = None then None else Some 4)
              \<and> tr' = tr @ [(FindEmissionFactors (tier3_query n), GotFactors rows3),
                             (FindNACEEmissionFactor n, GotNACE nf)]))"
proof -
  from assms obtain t3 s1 tr1 where
    t3: "getEmissionFactorTier3 n db (s, tr) = (Inr t3, (s1, tr1))"
    and rest: "(t3 \<noteq> None \<and> factor = t3 \<and> tier = Some 3 \<and> tr' = tr1)
       \<or> (t3 = None \<and> (\<exists>t4. getEmissionFactorTier4 n db (s1, tr1) = (Inr t4, (s', tr'))
             \<and> factor = t4 \<and> tier = (if t4 = None then None else Some 4)))"
    unfolding fallback_from_tier3_def
    by (auto simp: run_Inr split: option.splits)
  from tier3_trace [OF t3] obtain rows3 where
    tr1: "tr1 = tr @ [(FindEmissionFactors (tier3_query n), GotFactors rows3)]"
    and t3v: "t3 = tier3_factor rows3" by blast
  from rest show ?thesis
  proof
    assume "t3 \<noteq> None \<and> factor = t3 \<and> tier = Some 3 \<and> tr' = tr1"
    then show ?thesis using tr1 t3v tier3_factor_None [of rows3] by auto
  next
    assume "t3 = None \<and> (\<exists>t4. getEmissionFactorTier4 n db (s1, tr1) = (Inr t4, (s', tr'))
             \<and> factor = t4 \<and> tier = (if t4 = None then None else Some 4))"
    then obtain t4 where none: "t3 = None"
      and t4: "getEmissionFactorTier4 n db (s1, tr1) = (Inr t4, (s', tr'))"
      and ft: "factor = t4" "tier = (if t4 = None then None else Some 4)" by blast
    from tier4_trace [OF t4] obtain nf where
      tr': "tr' = tr1 @ [(FindNACEEmissionFactor n, GotNACE nf)]"
      and t4v: "t4 = tier4_factor n nf" by blast
    have nr: "no_rows rows3" using none t3v tier3_factor_None [of rows3] by simp
    show ?thesis using nr tr1 tr' t4v ft tier4_factor_None [of n nf] by auto
  qed
qed


lemma fallback_cases:
  assumes run: "getEmissionFactorWithFallback n db cfg cc ph (s, tr0)
                  = (Inr (factor, tier, reasoning), (s', tr'))"
  shows "\<exists>tr. tr' = tr0 @ tr \<and>
    ((tier = Some 1 \<and> truthy cc \<and> (\<exists>k f. k < length (tier1_calls n (the cc) ph) \<and> factor = Some f
        \<and> tr = missed (take k (tier1_calls n (the cc) ph))
               @ [(tier1_calls n (the cc) ph ! k, GotFactor (Some f))]))
   \<or> (tier = Some 2 \<and> truthy cc \<and> (\<exists>rows2. \<not> no_rows rows2 \<and> factor = tier2_factor rows2
        \<and> tr = missed (tier1_calls n (the cc) ph)
               @ [(FindEmissionFactors (tier1_query n (the cc) None), GotFactors rows2)]))
   \<or> (tier = Some 3 \<and> (\<exists>rows2 rows3. no_rows rows2 \<and> \<not> no_rows rows3
        \<and> factor = tier3_factor rows3
        \<and> tr = country_tiers_missed n cc ph rows2
               @ [(FindEmissionFactors (tier3_query n), GotFactors rows3)]))
   \<or> (tier = Some 4 \<and> (\<exists>rows2 rows3 nf. no_rows rows2 \<and> no_rows rows3
        \<and> factor = tier4_factor n (Some nf)
        \<and> tr = country_tiers_missed n cc ph rows2
               @ [(FindEmissionFactors (tier3_query n), GotFactors rows3),
                  (FindNACEEmissionFactor n, GotNACE (Some nf))]))
   \<or> (tier = None \<and> factor = None \<and> (\<exists>rows2 rows3. no_rows rows2 \<and> no_rows rows3
        \<and> tr = country_tiers_missed n cc ph rows2
               @ [(FindEmissionFactors (tier3_query n), GotFactors rows3),
                  (FindNACEEmissionFactor n, GotNACE None)])))"
proof -
  have late: "\<exists>rows3. (tier = Some 3 \<and> \<not> no_rows rows3 \<and> factor = tier3_factor rows3
              \<and> tr' = (tr0 @ pre) @ [(FindEmissionFactors (tier3_query n), GotFactors rows3)])
         \<or> (no_rows rows3 \<and> (\<exists>nf. factor = tier4_factor n nf
              \<and> tier = (if nf = None then None else Some 4)
              \<and> tr' = (tr0 @ pre) @ [(FindEmissionFactors (tier3_query n), GotFactors rows3),
                             (FindNACEEmissionFactor n, GotNACE nf)]))"
    if "fallback_from_tier3 n db (s2, tr0 @ pre) = (Inr (factor, tier, reasoning), (s', tr'))"
    for s2 pre
    using from_tier3_trace [OF that] .
  have finish: ?thesis
    if pre: "pre = country_tiers_missed n cc ph rows2" and nr: "no_rows rows2"
      and r3: "fallback_from_tier3 n db (s2, tr0 @ pre) = (Inr (factor, tier, reasoning), (s', tr'))"
    for s2 pre rows2
  proof -
    from late [OF r3] obtain rows3 where
      c: "(tier = Some 3 \<and> \<not> no_rows rows3 \<and> factor = tier3_factor rows3
              \<and> tr' = (tr0 @ pre) @ [(FindEmissionFactors (tier3_query n), GotFactors rows3)])
         \<or> (no_rows rows3 \<and> (\<exists>nf. factor = tier4_factor n nf
              \<and> tier = (if nf = None then None else Some 4)
              \<and> tr' = (tr0 @ pre) @ [(FindEmissionFactors (tier3_query n), GotFactors rows3),
                             (FindNACEEmissionFactor n, GotNACE nf)]))" by blast
    from c show ?thesis
    proof
      assume "tier = Some 3 \<and> \<not> no_rows rows3 \<and> factor = tier3_factor rows3
              \<and> tr' = (tr0 @ pre) @ [(FindEmissionFactors (tier3_query n), GotFactors rows3)]"
      then show ?thesis using pre nr by auto
    next
      assume "no_rows rows3 \<and> (\<exists>nf. factor = tier4_factor n nf
              \<and> tier = (if nf = None then None else Some 4)
              \<and> tr' = (tr0 @ pre) @ [(FindEmissionFactors (tier3_query n), GotFactors rows3),
                             (FindNACEEmissionFactor n, GotNACE nf)])"
      then obtain nf where nr3: "no_rows rows3" and f: "factor = tier4_factor n nf"
        and t: "tier = (if nf = None then None else Some 4)"
        and tr': "tr' = (tr0 @ pre) @ [(FindEmissionFactors (tier3_query n), GotFactors rows3),
                             (FindNACEEmissionFactor n, GotNACE nf)]" by blast
      show ?thesis
      proof (cases nf)
        case None
        then have "tier = None" "factor = None" using t f by (simp_all add: tier4_factor_def)
        then show ?thesis using pre nr nr3 tr' None by auto
      next
        case (Some x)
        then have "tier = Some 4" using t by simp
        then show ?thesis using pre nr nr3 tr' Some f by auto
      qed
    qed
  qed
  show ?thesis
  proof (cases "truthy cc")
    case False
    with run have r3: "fallback_from_tier3 n db (s, tr0 @ []) = (Inr (factor, tier, reasoning), (s', tr'))"
      by (simp add: getEmissionFactorWithFallback_def)
    have "[] = country_tiers_missed n cc ph None" using False by (simp add: country_tiers_missed_def)
    from finish [OF this _ r3] show ?thesis by (simp add: no_rows_def)
  next
    case True
    let ?T1 = "tier1_calls n (the cc) ph"
    let ?Q2 = "FindEmissionFactors (tier1_query n (the cc) None)"
    obtain r1 s1 tr1 where
      e1: "getEmissionFactorTier1 n (the cc) db ph (s, tr0) = (r1, (s1, tr1))"
      by (metis prod_cases3)
    show ?thesis
    proof (cases r1)
      case (Inl e)
      with run True e1 show ?thesis
        by (simp add: getEmissionFactorWithFallback_def bind_io_def)
    next
      case (Inr t1)
      note t1tr = tier1_trace [OF e1 [unfolded Inr]]
      show ?thesis
      proof (cases t1)
        case (Some f)
        with run True e1 Inr have a: "factor = Some f" "tier = Some 1" "tr' = tr1"
          by (simp_all add: getEmissionFactorWithFallback_def bind_io_def return_io_def Let_def)
        from t1tr Some obtain k where "k < length ?T1"
          "tr1 = tr0 @ missed (take k ?T1) @ [(?T1 ! k, GotFactor (Some f))]" by auto
        then show ?thesis using a True by auto
      next
        case None
        from t1tr None have tr1: "tr1 = tr0 @ missed ?T1" by simp
        obtain r2 s2 tr2 where
          e2: "getEmissionFactorTier2 n (the cc) db (s1, tr1) = (r2, (s2, tr2))"
          by (metis prod_cases3)
        show ?thesis
        proof (cases r2)
          case (Inl e)
          with run True e1 e2 \<open>r1 = Inr t1\<close> None show ?thesis
            by (simp add: getEmissionFactorWithFallback_def bind_io_def)
        next
          case r2: (Inr t2)
          from tier2_trace [OF e2 [unfolded r2]] obtain rows2 where
            tr2: "tr2 = tr1 @ [(?Q2, GotFactors rows2)]" and t2v: "t2 = tier2_factor rows2"
            by blast
          show ?thesis
          proof (cases t2)
            case (Some f)
            with run True e1 e2 r2 \<open>r1 = Inr t1\<close> \<open>t1 = None\<close>
            have a: "factor = Some f" "tier = Some 2" "tr' = tr2"
              by (simp_all add: getEmissionFactorWithFallback_def bind_io_def return_io_def)
            have "\<not> no_rows rows2" using Some t2v tier2_factor_None [of rows2] by simp
            then show ?thesis using a True tr1 tr2 t2v Some by auto
          next
            case None
            then have nr: "no_rows rows2" using t2v tier2_factor_None [of rows2] by simp
            have pre: "missed ?T1 @ [(?Q2, GotFactors rows2)] = country_tiers_missed n cc ph rows2"
              using True by (simp add: country_tiers_missed_def)
            have "tr2 = tr0 @ (missed ?T1 @ [(?Q2, GotFactors rows2)])" using tr1 tr2 by simp
            with run True e1 e2 r2 \<open>r1 = Inr t1\<close> \<open>t1 = None\<close> None
            have r3: "fallback_from_tier3 n db (s2, tr0 @ (missed ?T1 @ [(?Q2, GotFactors rows2)]))
                           = (Inr (factor, tier, reasoning), (s', tr'))"
              by (simp add: getEmissionFactorWithFallback_def bind_io_def)
            from finish [OF pre nr r3] show ?thesis .
          qed
        qed
      qed
    qed
  qed
qed

text \<open>
  C1: a run of \<^verbatim>\<open>getEmissionFactorWithFallback\<close> that returns has a tier that is null or
  1 to 4, and its trace is the one of the tiers tried in order up to the first that
  succeeded. Tier 1 is returned with a known country, after the tier-1 queries before the
  one that found the factor all returned null. Tier 2 is returned with a known country,
  after every tier-1 query (one per hint, then the one without hint) returned null and the
  tier-2 query returned rows. Tier 3 is returned after tiers 1 and 2 missed (or, with no
  country, were not tried), the tier-2 query having returned no rows. Tier 4 is returned
  after the tier-3 query too returned no rows and the sector record was found. A null tier
  comes with a null factor, after all four missed.
\<close>

theorem tier_fallback_order:
  assumes "getEmissionFactorWithFallback naceCode db config countryCode productHints (s, [])
             = (Inr (factor, tier, reasoning), (s', tr))"
  shows "(tier = None \<or> matched_tier tier)
    \<and> (tier = Some 1 \<longrightarrow> truthy countryCode
          \<and> (\<exists>k f. k < length (tier1_calls naceCode (the countryCode) productHints)
                \<and> factor = Some f
                \<and> tr = missed (take k (tier1_calls naceCode (the countryCode) productHints))
                       @ [(tier1_calls naceCode (the countryCode) productHints ! k,
                           GotFactor (Some f))]))
    \<and> (tier = Some 2 \<longrightarrow> truthy countryCode
          \<and> (\<exists>rows2. \<not> no_rows rows2 \<and> factor = tier2_factor rows2
                \<and> tr = missed (tier1_calls naceCode (the countryCode) productHints)
                       @ [(FindEmissionFactors (tier1_query naceCode (the countryCode) None),
                           GotFactors rows2)]))
    \<and> (tier = Some 3 \<longrightarrow>
          (\<exists>rows2 rows3. no_rows rows2 \<and> \<not> no_rows rows3 \<and> factor = tier3_factor rows3
                \<and> tr = country_tiers_missed naceCode countryCode productHints rows2
                       @ [(FindEmissionFactors (tier3_query naceCode), GotFactors rows3)]))
    \<and> (tier = Some 4 \<longrightarrow>
          (\<exists>rows2 rows3 nf. no_rows rows2 \<and> no_rows rows3
                \<and> factor = tier4_factor naceCode (Some nf)
                \<and> tr = country_tiers_missed naceCode countryCode productHints rows2
                       @ [(FindEmissionFactors (tier3_query naceCode), GotFactors rows3),
                          (FindNACEEmissionFactor naceCode, GotNACE (Some nf))]))
    \<and> (tier = None \<longrightarrow> factor = None
          \<and> (\<exists>rows2 rows3. no_rows rows2 \<and> no_rows rows3
                \<and> tr = country_tiers_missed naceCode countryCode productHints rows2
                       @ [(FindEmissionFactors (tier3_query naceCode), GotFactors rows3),
                          (FindNACEEmissionFactor naceCode, GotNACE None)]))"
  using fallback_cases [OF assms] by (auto simp: matched_tier_def)

theorem tier_fallback_order_witness:
  "getEmissionFactorWithFallback ''35.11'' rows_db DEFAULT_CONFIG (Some ''SE'')
       (Some [''wind'', ''electricity'']) (0, [])
     = (Inr (tier2_factor (Some three_rows), Some 2,
             ''Country average for SE + NACE 35.11 (product-averaged)''),
        (0, missed (tier1_calls ''35.11'' ''SE'' (Some [''wind'', ''electricity'']))
            @ [(FindEmissionFactors (tier1_query ''35.11'' ''SE'' None),
                GotFactors (Some three_rows))]))
   \<and> truthy (Some ''SE'')
   \<and> \<not> no_rows (Some three_rows)"
proof -
  have run: "getEmissionFactorWithFallback ''35.11'' rows_db DEFAULT_CONFIG (Some ''SE'')
       (Some [''wind'', ''electricity'']) (0, [])
     = (Inr (tier2_factor (Some three_rows), Some 2,
             ''Country average for SE + NACE 35.11 (product-averaged)''),
        (0, missed (tier1_calls ''35.11'' ''SE'' (Some [''wind'', ''electricity'']))
            @ [(FindEmissionFactors (tier1_query ''35.11'' ''SE'' None),
                GotFactors (Some three_rows))]))"
    by code_simp
  from tier_fallback_order [OF run] have "truthy (Some ''SE'')" by simp
  with run show ?thesis by (simp add: no_rows_def three_rows_def)
qed

section \<open>A sector record without a scope-3 factor (C10)\<close>

lemma tier4_run:
  assumes "findNACEEmissionFactor db n s = (Inr nf, s')"
  shows "getEmissionFactorTier4 n db (s, tr)
    = (Inr (tier4_factor n nf), (s', tr @ [(FindNACEEmissionFactor n, GotNACE nf)]))"
  using assms
  by (simp add: getEmissionFactorTier4_def db_calls bind_io_def await_def return_io_def)

lemma tier4_factor_zero:
  assumes "nf_scope_3_factor nf = None"
  shows "\<exists>f. tier4_factor n (Some nf) = Some f \<and> ef_emission_factor_kgco2e_per_eur f = 0
           \<and> ef_confidence_level f = Some Low"
  using assms by (simp add: tier4_factor_def or_zero_def)

lemma ends_with_sector_record:
  assumes run: "getEmissionFactorWithFallback n db cfg cc ph (s, [])
                  = (Inr (factor, tier, reasoning), (s', tr))"
    and last: "tr = before @ [(FindNACEEmissionFactor n, GotNACE (Some nf))]"
  shows "tier = Some 4 \<and> factor = tier4_factor n (Some nf)"
proof -
  have l: "last tr = (FindNACEEmissionFactor n, GotNACE (Some nf))" using last by simp
  from fallback_cases [OF run] l show ?thesis by auto
qed

text \<open>
  C10: let the sector record found for a NACE code have a null scope-3 factor. Then tier 4
  returns a factor of intensity 0 and confidence level "low"; and a run of the resolver
  whose last call found that record returns tier 4 with that factor, not a null factor and
  a null tier, so the emissions computed from it are 0.
\<close>

theorem sector_record_without_scope3:
  assumes "nf_scope_3_factor nf = None"
  shows "(findNACEEmissionFactor db naceCode s = (Inr (Some nf), s')
      \<longrightarrow> (\<exists>f. getEmissionFactorTier4 naceCode db (s, tr)
                 = (Inr (Some f),
                    (s', tr @ [(FindNACEEmissionFactor naceCode, GotNACE (Some nf))]))
             \<and> ef_emission_factor_kgco2e_per_eur f = 0
             \<and> ef_confidence_level f = Some Low))
    \<and> (getEmissionFactorWithFallback naceCode db config countryCode productHints (s, [])
         = (Inr (factor, tier, reasoning),
            (s', tr @ [(FindNACEEmissionFactor naceCode, GotNACE (Some nf))]))
      \<longrightarrow> tier = Some 4
          \<and> (\<exists>f. factor = Some f
                \<and> ef_emission_factor_kgco2e_per_eur f = 0
                \<and> ef_confidence_level f = Some Low
                \<and> calculateEmissions amount (ef_emission_factor_kgco2e_per_eur f)
                      currency exchangeRate = 0))"
proof (rule conjI; rule impI)
  assume "findNACEEmissionFactor db naceCode s = (Inr (Some nf), s')"
  from tier4_run [OF this, of tr] tier4_factor_zero [OF assms, of naceCode]
  show "\<exists>f. getEmissionFactorTier4 naceCode db (s, tr)
                 = (Inr (Some f),
                    (s', tr @ [(FindNACEEmissionFactor naceCode, GotNACE (Some nf))]))
             \<and> ef_emission_factor_kgco2e_per_eur f = 0
             \<and> ef_confidence_level f = Some Low"
    by auto
next
  assume run: "getEmissionFactorWithFallback naceCode db config countryCode productHints (s, [])
         = (Inr (factor, tier, reasoning),
            (s', tr @ [(FindNACEEmissionFactor naceCode, GotNACE (Some nf))]))"
  from ends_with_sector_record [OF run refl]
  have t: "tier = Some 4" and f: "factor = tier4_factor naceCode (Some nf)" by simp_all
  from tier4_factor_zero [OF assms, of naceCode] f
  have "\<exists>f. factor = Some f
                \<and> ef_emission_factor_kgco2e_per_eur f = 0
                \<and> ef_confidence_level f = Some Low
                \<and> calculateEmissions amount (ef_emission_factor_kgco2e_per_eur f)
                      currency exchangeRate = 0"
    by (auto simp: calculateEmissions_def)
  with t show "tier = Some 4
          \<and> (\<exists>f. factor = Some f
                \<and> ef_emission_factor_kgco2e_per_eur f = 0
                \<and> ef_confidence_level f = Some Low
                \<and> calculateEmissions amount (ef_emission_factor_kgco2e_per_eur f)
                      currency exchangeRate = 0)"
    by simp
qed

theorem sector_record_without_scope3_witness:
  "nf_scope_3_factor nace_3511 = None
   \<and> getEmissionFactorWithFallback ''35.11'' sector_db DEFAULT_CONFIG (Some ''SE'')
         (Some [''wind'']) (0, [])
       = (Inr (tier4_factor ''35.11'' (Some nace_3511), Some 4,
               ''Global sector average for NACE 35.11''),
          (0, country_tiers_missed ''35.11'' (Some ''SE'') (Some [''wind'']) (Some [])
              @ [(FindEmissionFactors (tier3_query ''35.11''), GotFactors (Some []))]
              @ [(FindNACEEmissionFactor ''35.11'', GotNACE (Some nace_3511))]))
   \<and> (\<exists>f. tier4_factor ''35.11'' (Some nace_3511) = Some f
          \<and> ef_emission_factor_kgco2e_per_eur f = 0
          \<and> ef_confidence_level f = Some Low
          \<and> calculateEmissions 2300 (ef_emission_factor_kgco2e_per_eur f) ''EUR'' 1 = 0)"
proof -
  have none: "nf_scope_3_factor nace_3511 = None" by (simp add: nace_3511_def)
  have run: "getEmissionFactorWithFallback ''35.11'' sector_db DEFAULT_CONFIG (Some ''SE'')
         (Some [''wind'']) (0, [])
       = (Inr (tier4_factor ''35.11'' (Some nace_3511), Some 4,
               ''Global sector average for NACE 35.11''),
          (0, (country_tiers_missed ''35.11'' (Some ''SE'') (Some [''wind'']) (Some [])
              @ [(FindEmissionFactors (tier3_query ''35.11''), GotFactors (Some []))])
              @ [(FindNACEEmissionFactor ''35.11'', GotNACE (Some nace_3511))]))"
    by code_simp
  from sector_record_without_scope3 [OF none, THEN conjunct2, rule_format, OF run,
      of 2300 "''EUR''" 1]
  show ?thesis using none run by simp
qed

section \<open>Repository failures (C8)\<close>

lemma quiet_append: "quiet (a @ b) = (quiet a \<and> quiet b)"
  by (simp add: quiet_def)

lemma faithful_return: "emits (return_io x) faithful"
  by (rule emits_return) (simp add: faithful_def quiet_def)

lemma faithful_await: "(\<And>r. \<not> threw (got r)) \<Longrightarrow> emits (await c got op) faithful"
  by (rule emits_await) (simp_all add: faithful_def quiet_def)

lemma faithful_bind:
  assumes "emits m faithful" "\<And>x. emits (f x) faithful"
  shows "emits (bind_io m f) faithful"
proof (rule emits_bind [where ?Q1.0 = faithful])
  show "emits m faithful" by fact
  show "faithful (Inl e :: db_error + 'c) n" if "faithful (Inl e :: db_error + 'b) n" for e n
    using that by (simp add: faithful_def)
  show "emits (f x) (\<lambda>res n2. faithful res (n1 @ n2))"
    if "faithful (Inr x :: db_error + 'b) n1" for x n1
  proof (rule emits_weaken [OF assms(2)])
    fix res :: "db_error + 'c" and n2
    assume "faithful res n2"
    with that show "faithful res (n1 @ n2)"
      by (auto simp: faithful_def quiet_append butlast_append split: sum.splits)
  qed
qed

lemma faithful_tier1_hints: "emits (tier1_hints n c db hs) faithful"
  by (induction hs)
     (auto intro!: faithful_return faithful_bind faithful_await simp: db_calls
        split: option.splits)

lemma faithful_tier1: "emits (getEmissionFactorTier1 n c db ph) faithful"
  unfolding getEmissionFactorTier1_def
  by (auto intro!: faithful_return faithful_bind faithful_await faithful_tier1_hints
      simp: db_calls split: option.splits list.splits)

lemma faithful_tier2: "emits (getEmissionFactorTier2 n c db) faithful"
  unfolding getEmissionFactorTier2_def
  by (auto intro!: faithful_return faithful_bind faithful_await simp: db_calls)

lemma faithful_tier3: "emits (getEmissionFactorTier3 n db) faithful"
  unfolding getEmissionFactorTier3_def
  by (auto intro!: faithful_return faithful_bind faithful_await simp: db_calls)

lemma faithful_tier4: "emits (getEmissionFactorTier4 n db) faithful"
  unfolding getEmissionFactorTier4_def
  by (auto intro!: faithful_return faithful_bind faithful_await simp: db_calls)

lemma faithful_from_tier3: "emits (fallback_from_tier3 n db) faithful"
  unfolding fallback_from_tier3_def
  by (auto intro!: faithful_return faithful_bind faithful_tier3 faithful_tier4
      split: option.splits)

lemma faithful_fallback: "emits (getEmissionFactorWithFallback n db cfg cc ph) faithful"
  unfolding getEmissionFactorWithFallback_def
  by (auto intro!: faithful_return faithful_bind faithful_tier1 faithful_tier2
      faithful_from_tier3 simp: Let_def split: option.splits)

lemma faithful_matchByVAT: "emits (matchByVAT t db cfg) faithful"
  unfolding matchByVAT_def
  by (auto intro!: faithful_return faithful_bind faithful_await
      simp: db_calls Let_def split: option.splits)

lemma faithful_matchByAccountCode: "emits (matchByAccountCode t cid db) faithful"
  unfolding matchByAccountCode_def
  by (auto intro!: faithful_return faithful_bind faithful_await
      simp: db_calls split: option.splits)

lemma faithful_matchBySupplierName: "emits (matchBySupplierName t db cfg) faithful"
  unfolding matchBySupplierName_def
  by (auto intro!: faithful_return faithful_bind faithful_await
      simp: db_calls Let_def split: option.splits)

lemma faithful_supplier: "emits (strategy_supplier t db cfg cc ph) faithful"
  unfolding strategy_supplier_def
  by (auto intro!: faithful_return faithful_bind faithful_matchBySupplierName
      faithful_fallback split: option.splits)

lemma faithful_account_by_nace: "emits (account_by_nace t db cfg cc ph n) faithful"
  unfolding account_by_nace_def
  by (auto intro!: faithful_return faithful_bind faithful_supplier faithful_fallback
      split: option.splits)

lemma faithful_account: "emits (strategy_account t db cid cfg cc ph) faithful"
  unfolding strategy_account_def
  by (auto intro!: faithful_return faithful_bind faithful_supplier faithful_account_by_nace
      faithful_matchByAccountCode faithful_await simp: db_calls
      split: option.splits)

lemma faithful_vat_by_nace: "emits (vat_by_nace t db cid cfg cc ph n) faithful"
  unfolding vat_by_nace_def
  by (auto intro!: faithful_return faithful_bind faithful_account faithful_fallback
      split: option.splits)

lemma faithful_matchTransaction: "emits (matchTransaction t db cid cfg) faithful"
  unfolding matchTransaction_def
  by (auto intro!: faithful_bind faithful_account faithful_vat_by_nace
      faithful_matchByVAT simp: Let_def)

text \<open>
  C8: for every transaction, adapter and configuration, a run of \<^verbatim>\<open>matchTransaction\<close>
  fails exactly when a repository call threw: the run then ends with that call and fails
  with the error it threw, no earlier call having thrown. A run that returns a result
  (also the no-match result) made no call that threw; calls answered with null or an
  empty list never make the run fail.
\<close>

theorem repository_errors_propagate:
  assumes "matchTransaction transaction db companyId config (s, []) = (res, (s', tr))"
  shows "case res of
           Inl e \<Rightarrow> tr \<noteq> [] \<and> snd (last tr) = Threw e \<and> quiet (butlast tr)
         | Inr r \<Rightarrow> quiet tr"
  using emitsD [OF faithful_matchTransaction assms] by (simp add: faithful_def)

theorem repository_errors_propagate_witness:
  "matchTransaction (vattenfall_tx\<lparr>tx_vat_number := None\<rparr>) down_db None DEFAULT_CONFIG (0, [])
     = (Inl (DbError ''connection lost''),
        (0, [(GetSupplierMapping ''vattenfall'', Threw (DbError ''connection lost''))]))
   \<and> snd (last [(GetSupplierMapping ''vattenfall'', Threw (DbError ''connection lost''))])
       = Threw (DbError ''connection lost'')
   \<and> matchTransaction (vattenfall_tx\<lparr>tx_vat_number := None\<rparr>) empty_db None DEFAULT_CONFIG
       (0, [])
     = (Inr no_match, (0, [(GetSupplierMapping ''vattenfall'', GotSupplier None)]))
   \<and> quiet [(GetSupplierMapping ''vattenfall'', GotSupplier None)]"
proof -
  have down: "matchTransaction (vattenfall_tx\<lparr>tx_vat_number := None\<rparr>) down_db None
                DEFAULT_CONFIG (0, [])
     = (Inl (DbError ''connection lost''),
        (0, [(GetSupplierMapping ''vattenfall'', Threw (DbError ''connection lost''))]))"
    by code_simp
  have miss: "matchTransaction (vattenfall_tx\<lparr>tx_vat_number := None\<rparr>) empty_db None
                DEFAULT_CONFIG (0, [])
     = (Inr no_match, (0, [(GetSupplierMapping ''vattenfall'', GotSupplier None)]))"
    by code_simp
  from repository_errors_propagate [OF down] repository_errors_propagate [OF miss] down miss
  show ?thesis by simp
qed

section \<open>The fallback flag (C6)\<close>

lemma from_tier3_tier: "returns (fallback_from_tier3 n db) tier_known"
  unfolding fallback_from_tier3_def
  by (auto intro!: returns_bind_any returns_return simp: tier_known_def matched_tier_def
      split: option.splits)

lemma fallback_tier: "returns (getEmissionFactorWithFallback n db cfg cc ph) tier_known"
  unfolding getEmissionFactorWithFallback_def
  by (auto intro!: returns_bind_any returns_return from_tier3_tier
      simp: tier_known_def matched_tier_def Let_def split: option.splits)

lemma returns_resolved:
  assumes "\<And>f tier reasoning. matched_tier tier \<Longrightarrow> returns (k (Some f, tier, reasoning)) P"
    and "\<And>tier reasoning. returns (k (None, tier, reasoning)) P"
  shows "returns (bind_io (getEmissionFactorWithFallback n db cfg cc ph) k) P"
proof (rule returns_bind [OF fallback_tier])
  fix x :: tiered
  assume "tier_known x"
  then show "returns (k x) P"
    using assms by (cases x; cases "fst x") (auto simp: tier_known_def)
qed

lemma flag_tiered:
  "matched_tier tier \<Longrightarrow> m \<noteq> M_none
     \<Longrightarrow> flag_ok (tiered_result m b l cfg n cc f tier reasoning)"
  by (auto simp: flag_ok_def tiered_result_def matched_tier_def Let_def)

lemma flag_supplier: "returns (strategy_supplier t db cfg cc ph) flag_ok"
  unfolding strategy_supplier_def
  by (auto intro!: returns_after returns_resolved returns_return flag_tiered
      simp: flag_ok_def no_match_def split: option.splits)

lemma flag_account_by_nace: "returns (account_by_nace t db cfg cc ph n) flag_ok"
  unfolding account_by_nace_def
  by (auto intro!: returns_after returns_resolved returns_return flag_tiered flag_supplier
      split: option.splits)

lemma flag_account: "returns (strategy_account t db cid cfg cc ph) flag_ok"
  unfolding strategy_account_def
  by (auto intro!: returns_after returns_return flag_supplier flag_account_by_nace
      simp: flag_ok_def premapped_result_def matched_tier_def split: option.splits)

lemma flag_vat_by_nace: "returns (vat_by_nace t db cid cfg cc ph n) flag_ok"
  unfolding vat_by_nace_def
  by (auto intro!: returns_resolved returns_return flag_tiered flag_account
      split: option.splits)

lemma flag_matchTransaction: "returns (matchTransaction t db cid cfg) flag_ok"
  unfolding matchTransaction_def Let_def
  by (auto intro!: returns_after flag_vat_by_nace flag_account)

lemma outcome_SomeD:
  assumes "outcome run = Some (m, t, c, fb)"
  shows "\<exists>r w'. run = (Inr r, w') \<and> mr_method r = m \<and> mr_tier r = t
           \<and> mr_confidence r = c \<and> mr_fallbackApplied r = fb"
  using assms by (cases run; cases "fst run") (auto simp: outcome_def)

text \<open>
  C6: in every result \<^verbatim>\<open>matchTransaction\<close> returns, \<^verbatim>\<open>fallbackApplied\<close> is true exactly
  when the tier is 2, 3 or 4. The tier is null or 1 to 4, and it is null exactly when the
  method is "none"; so with tier 1, and with the no-match result, the flag is false.
\<close>

theorem fallback_applied_iff_lower_tier:
  assumes "matchTransaction transaction db companyId config w = (Inr r, w')"
  shows "mr_fallbackApplied r = (mr_tier r = Some 2 \<or> mr_tier r = Some 3 \<or> mr_tier r = Some 4)
    \<and> (mr_tier r = None \<or> matched_tier (mr_tier r))
    \<and> (mr_tier r = None) = (mr_method r = M_none)"
  using returnsD [OF flag_matchTransaction assms] unfolding flag_ok_def .

theorem fallback_applied_iff_lower_tier_witness:
  "outcome (matchTransaction vattenfall_tx average_db (Some ''acme'') DEFAULT_CONFIG (0, []))
     = Some (M_vat_lookup, Some 2, 0.85, True)
   \<and> outcome (matchTransaction vattenfall_tx guide_db (Some ''acme'') DEFAULT_CONFIG (0, []))
     = Some (M_vat_lookup, Some 1, 0.95, False)
   \<and> outcome (matchTransaction vattenfall_tx empty_db (Some ''acme'') DEFAULT_CONFIG (0, []))
     = Some (M_none, None, 0, False)"
proof -
  have a: "outcome (matchTransaction vattenfall_tx average_db (Some ''acme'') DEFAULT_CONFIG
             (0, [])) = Some (M_vat_lookup, Some 2, 0.85, True)"
    by code_simp
  have b: "outcome (matchTransaction vattenfall_tx guide_db (Some ''acme'') DEFAULT_CONFIG
             (0, [])) = Some (M_vat_lookup, Some 1, 0.95, False)"
    by code_simp
  have c: "outcome (matchTransaction vattenfall_tx empty_db (Some ''acme'') DEFAULT_CONFIG
             (0, [])) = Some (M_none, None, 0, False)"
    by code_simp
  from outcome_SomeD [OF a] obtain r w' where
    run: "matchTransaction vattenfall_tx average_db (Some ''acme'') DEFAULT_CONFIG (0, [])
            = (Inr r, w')"
    and r: "mr_tier r = Some 2" "mr_fallbackApplied r = True"
    by blast
  from fallback_applied_iff_lower_tier [OF run] r a b c show ?thesis by simp
qed

section \<open>Confidence (C2)\<close>













section \<open>Strategy priority (C3)\<close>

lemma only_return: "emits (return_io x) (only_calls P)"
  by (rule emits_return) (simp add: only_calls_def)

lemma only_await: "P c \<Longrightarrow> emits (await c got op) (only_calls P)"
  by (rule emits_await) (simp_all add: only_calls_def)

lemma only_bind:
  assumes "emits m (only_calls P)" "\<And>x. emits (f x) (only_calls P)"
  shows "emits (bind_io m f) (only_calls P)"
proof (rule emits_bind [where ?Q1.0 = "only_calls P"])
  show "emits m (only_calls P)" by fact
  show "only_calls P (Inl e :: db_error + 'c) n" if "only_calls P (Inl e :: db_error + 'b) n"
    for e n
    using that by (simp add: only_calls_def)
  show "emits (f x) (\<lambda>res n2. only_calls P res (n1 @ n2))"
    if "only_calls P (Inr x :: db_error + 'b) n1" for x n1
    using that by (intro emits_weaken [OF assms(2)]) (simp add: only_calls_def)
qed

lemma early_tier1_hints:
  "emits (tier1_hints n c db hs) (only_calls (\<lambda>c. \<not> later_strategy_call c))"
  by (induction hs)
     (auto intro!: only_return only_bind only_await simp: db_calls split: option.splits)

lemma early_fallback:
  "emits (getEmissionFactorWithFallback n db cfg cc ph)
     (only_calls (\<lambda>c. \<not> later_strategy_call c))"
  unfolding getEmissionFactorWithFallback_def fallback_from_tier3_def
    getEmissionFactorTier1_def getEmissionFactorTier2_def getEmissionFactorTier3_def
    getEmissionFactorTier4_def
  by (auto intro!: only_return only_bind only_await early_tier1_hints
      simp: db_calls Let_def split: option.splits list.splits)

lemma early_matchByVAT:
  "emits (matchByVAT t db cfg) (only_calls (\<lambda>c. \<not> later_strategy_call c))"
  unfolding matchByVAT_def
  by (auto intro!: only_return only_bind only_await simp: db_calls Let_def
      split: option.splits)

text \<open>
  C3: whenever the VAT strategy yields a NACE code (\<^verbatim>\<open>matchByVAT\<close> returns one that is
  not empty) and the tier resolution of that code, for the country the matcher settles on,
  returns a factor, \<^verbatim>\<open>matchTransaction\<close> returns that factor with method "vat_lookup" and
  the tier found, and its run ends there: the trace holds no call of the account-code or
  supplier-name strategy, whatever those would have answered.
\<close>

theorem vat_strategy_wins:
  assumes vat: "matchByVAT transaction db config (s, [])
                  = (Inr (naceCode, vatCountry), (s1, tr1))"
    and nace: "truthy naceCode"
    and resolved: "getEmissionFactorWithFallback (the naceCode) db config
                     (if \<not> truthy (tx_supplier_country transaction) \<and> truthy vatCountry
                      then vatCountry else tx_supplier_country transaction)
                     (Some (extractProductHints (tx_description transaction))) (s1, tr1)
                   = (Inr (Some f, tier, reasoning), (s2, tr2))"
  shows "\<exists>r. matchTransaction transaction db companyId config (s, []) = (Inr r, (s2, tr2))
    \<and> mr_method r = M_vat_lookup
    \<and> mr_emissionFactor r = Some f
    \<and> mr_tier r = tier
    \<and> list_all (\<lambda>ev. \<not> later_strategy_call (fst ev)) tr2"
proof -
  have tv: "truthy (tx_vat_number transaction)"
  proof (rule ccontr)
    assume "\<not> truthy (tx_vat_number transaction)"
    with vat have "naceCode = None" by (simp add: matchByVAT_def return_io_def)
    with nace show False by (simp add: truthy_def)
  qed
  from emitsD [OF early_matchByVAT vat]
  have e1: "list_all (\<lambda>ev. \<not> later_strategy_call (fst ev)) tr1"
    by (auto simp: only_calls_def)
  from emitsD [OF early_fallback resolved] e1
  have e2: "list_all (\<lambda>ev. \<not> later_strategy_call (fst ev)) tr2"
    by (auto simp: only_calls_def)
  have "matchTransaction transaction db companyId config (s, [])
          = (Inr (tiered_result M_vat_lookup (vat_lookup (methodConfidence config))
                    (''VAT lookup '' @ arrow @ '' '') config (the naceCode)
                    (if \<not> truthy (tx_supplier_country transaction) \<and> truthy vatCountry
                     then vatCountry else tx_supplier_country transaction)
                    f tier reasoning), (s2, tr2))"
    using tv vat nace resolved
    by (simp add: matchTransaction_def vat_by_nace_def Let_def bind_io_def return_io_def)
  then show ?thesis using e2 by (simp add: tiered_result_def Let_def)
qed

theorem vat_strategy_wins_witness:
  "matchByVAT vattenfall_tx guide_db DEFAULT_CONFIG (0, [])
     = (Inr (Some ''35.11'', Some ''SE''),
        (0, [(GetVATCache ''SE556036-2138'', GotVAT (Some vattenfall_vat))]))
   \<and> truthy (Some ''35.11'')
   \<and> getAccountMapping guide_db ''acme'' ''5910'' 0 = (Inr (Some account_5910), 0)
   \<and> getEmissionFactorById guide_db ''ef-se-wind'' 0 = (Inr (Some wind_factor), 0)
   \<and> matchTransaction vattenfall_tx guide_db (Some ''acme'') DEFAULT_CONFIG (0, [])
     = (Inr (tiered_result M_vat_lookup 0.95 (''VAT lookup '' @ arrow @ '' '') DEFAULT_CONFIG
               ''35.11'' (Some ''SE'') wind_factor (Some 1)
               ''Exact match: SE + NACE 35.11 + wind''),
        (0, [(GetVATCache ''SE556036-2138'', GotVAT (Some vattenfall_vat)),
             (FindEmissionFactor (tier1_query ''35.11'' ''SE'' (Some ''wind'')),
              GotFactor (Some wind_factor))]))"
proof -
  have vat: "matchByVAT vattenfall_tx guide_db DEFAULT_CONFIG (0, [])
     = (Inr (Some ''35.11'', Some ''SE''),
        (0, [(GetVATCache ''SE556036-2138'', GotVAT (Some vattenfall_vat))]))"
    by code_simp
  have nace: "truthy (Some ''35.11'')" by (simp add: truthy_def)
  have resolved: "getEmissionFactorWithFallback (the (Some ''35.11'')) guide_db DEFAULT_CONFIG
       (if \<not> truthy (tx_supplier_country vattenfall_tx) \<and> truthy (Some ''SE'')
        then Some ''SE'' else tx_supplier_country vattenfall_tx)
       (Some (extractProductHints (tx_description vattenfall_tx)))
       (0, [(GetVATCache ''SE556036-2138'', GotVAT (Some vattenfall_vat))])
     = (Inr (Some wind_factor, Some 1, ''Exact match: SE + NACE 35.11 + wind''),
        (0, [(GetVATCache ''SE556036-2138'', GotVAT (Some vattenfall_vat)),
             (FindEmissionFactor (tier1_query ''35.11'' ''SE'' (Some ''wind'')),
              GotFactor (Some wind_factor))]))"
    by code_simp
  have other: "getAccountMapping guide_db ''acme'' ''5910'' 0 = (Inr (Some account_5910), 0)"
    "getEmissionFactorById guide_db ''ef-se-wind'' 0 = (Inr (Some wind_factor), 0)"
    by (simp_all add: guide_db_def empty_db_def)
  have run: "matchTransaction vattenfall_tx guide_db (Some ''acme'') DEFAULT_CONFIG (0, [])
     = (Inr (tiered_result M_vat_lookup 0.95 (''VAT lookup '' @ arrow @ '' '') DEFAULT_CONFIG
               ''35.11'' (Some ''SE'') wind_factor (Some 1)
               ''Exact match: SE + NACE 35.11 + wind''),
        (0, [(GetVATCache ''SE556036-2138'', GotVAT (Some vattenfall_vat)),
             (FindEmissionFactor (tier1_query ''35.11'' ''SE'' (Some ''wind'')),
              GotFactor (Some wind_factor))]))"
    by code_simp
  from vat_strategy_wins [OF vat nace resolved, of "Some ''acme''"]
  show ?thesis using vat nace other run by simp
qed

section \<open>A recognised VAT prefix and an exact factor (C7)\<close>

lemma country_from_vat_Some: "getCountryFromVAT vat = Some c \<Longrightarrow> c \<noteq> [] \<and> vat \<noteq> []"
  by (auto simp: getCountryFromVAT_def or_else_def truthy_def Let_def
      split: if_splits option.splits)

lemma matchByVAT_cached:
  assumes "tx_vat_number t = Some vat" "vat \<noteq> []" "cacheVAT cfg"
    and "getVATCache db vat s = (Inr (Some entry), s1)" "vc_is_valid entry"
  shows "matchByVAT t db cfg (s, tr)
    = (Inr (vc_nace_code entry, or_else (getCountryFromVAT vat) (vc_country_code entry)),
       (s1, tr @ [(GetVATCache vat, GotVAT (Some entry))]))"
  using assms
  by (simp add: matchByVAT_def truthy_def Let_def bind_io_def db_calls await_def return_io_def)

text \<open>
  C7, as stated, fails: the guide's transaction carries a VAT identifier with the
  recognised prefix SE, and the repository finds the wind factor for tier 1; but with no
  entry in the VAT cache the VAT strategy yields no NACE code, and the match, at tier 1,
  is the supplier strategy's, with confidence 0.75.
\<close>

theorem recognised_prefix_counterexample:
  "tx_vat_number vattenfall_tx = Some ''SE556036-2138''
   \<and> getCountryFromVAT ''SE556036-2138'' = Some ''SE''
   \<and> findEmissionFactor supplier_db (tier1_query ''35.11'' ''SE'' (Some ''wind'')) 0
     = (Inr (Some wind_factor), 0)
   \<and> outcome (matchTransaction vattenfall_tx supplier_db None DEFAULT_CONFIG (0, []))
     = Some (M_supplier_mapping, Some 1, 0.75, False)"
proof -
  have "tx_vat_number vattenfall_tx = Some ''SE556036-2138''"
    by (simp add: vattenfall_tx_def)
  moreover have "getCountryFromVAT ''SE556036-2138'' = Some ''SE''"
    by code_simp
  moreover have "findEmissionFactor supplier_db (tier1_query ''35.11'' ''SE'' (Some ''wind'')) 0
     = (Inr (Some wind_factor), 0)"
    by (simp add: supplier_db_def guide_db_def empty_db_def tier1_query_def)
  moreover have "outcome (matchTransaction vattenfall_tx supplier_db None DEFAULT_CONFIG (0, []))
     = Some (M_supplier_mapping, Some 1, 0.75, False)"
    by code_simp
  ultimately show ?thesis by simp
qed

text \<open>
  C7, amended: for every transaction with a VAT identifier whose first two characters are
  a recognised country prefix, for which the VAT cache holds a valid entry with a NACE
  code, and for which the tier-1 lookup of that NACE code finds a factor for the
  transaction's country (its supplier country when set, else the country of the prefix),
  \<^verbatim>\<open>matchTransaction\<close> under the default configuration returns that factor with method
  "vat_lookup", tier 1, confidence 0.95 and \<^verbatim>\<open>fallbackApplied\<close> false.
\<close>

theorem recognised_prefix_exact_match:
  assumes vat: "tx_vat_number transaction = Some vat"
    and prefix: "getCountryFromVAT vat = Some c"
    and cache: "getVATCache db vat s = (Inr (Some entry), s1)"
    and valid: "vc_is_valid entry"
    and nace: "vc_nace_code entry = Some n" "n \<noteq> []"
    and found: "getEmissionFactorTier1 n
                  (if truthy (tx_supplier_country transaction)
                   then the (tx_supplier_country transaction) else c)
                  db (Some (extractProductHints (tx_description transaction)))
                  (s1, [(GetVATCache vat, GotVAT (Some entry))])
                = (Inr (Some f), (s2, tr))"
  shows "\<exists>r. matchTransaction transaction db companyId DEFAULT_CONFIG (s, []) = (Inr r, (s2, tr))
    \<and> mr_emissionFactor r = Some f
    \<and> mr_method r = M_vat_lookup
    \<and> mr_tier r = Some 1
    \<and> mr_confidence r = 0.95
    \<and> \<not> mr_fallbackApplied r"
proof -
  from country_from_vat_Some [OF prefix] have c: "c \<noteq> []" and v: "vat \<noteq> []" by simp_all
  have cfg: "cacheVAT DEFAULT_CONFIG" "vat_lookup (methodConfidence DEFAULT_CONFIG) = 0.95"
    by (simp_all add: DEFAULT_CONFIG_def)
  have byvat: "matchByVAT transaction db DEFAULT_CONFIG (s, [])
    = (Inr (Some n, Some c), (s1, [(GetVATCache vat, GotVAT (Some entry))]))"
    using matchByVAT_cached [OF vat v cfg(1) cache valid, of "[]"] nace prefix c
    by (simp add: or_else_def truthy_def)
  let ?cc = "if \<not> truthy (tx_supplier_country transaction) \<and> truthy (Some c)
             then Some c else tx_supplier_country transaction"
  have cc: "truthy ?cc"
    "the ?cc = (if truthy (tx_supplier_country transaction)
                then the (tx_supplier_country transaction) else c)"
    using c by (auto simp: truthy_def)
  obtain reasoning where resolved:
    "getEmissionFactorWithFallback n db DEFAULT_CONFIG ?cc
       (Some (extractProductHints (tx_description transaction)))
       (s1, [(GetVATCache vat, GotVAT (Some entry))])
     = (Inr (Some f, Some 1, reasoning), (s2, tr))"
    using found cc
    by (simp add: getEmissionFactorWithFallback_def bind_io_def return_io_def Let_def)
  have "matchTransaction transaction db companyId DEFAULT_CONFIG (s, [])
          = (Inr (tiered_result M_vat_lookup (vat_lookup (methodConfidence DEFAULT_CONFIG))
                    (''VAT lookup '' @ arrow @ '' '')
                    DEFAULT_CONFIG n ?cc f (Some 1) reasoning), (s2, tr))"
    using vat v byvat nace resolved
    by (simp add: matchTransaction_def vat_by_nace_def Let_def bind_io_def return_io_def
        truthy_def)
  then show ?thesis by (simp add: tiered_result_def cfg(2))
qed

theorem recognised_prefix_exact_match_witness:
  "tx_vat_number vattenfall_tx = Some ''SE556036-2138''
   \<and> getCountryFromVAT ''SE556036-2138'' = Some ''SE''
   \<and> getVATCache guide_db ''SE556036-2138'' 0 = (Inr (Some vattenfall_vat), 0)
   \<and> vc_is_valid vattenfall_vat
   \<and> vc_nace_code vattenfall_vat = Some ''35.11''
   \<and> outcome (matchTransaction vattenfall_tx guide_db None DEFAULT_CONFIG (0, []))
     = Some (M_vat_lookup, Some 1, 0.95, False)"
proof -
  have vat: "tx_vat_number vattenfall_tx = Some ''SE556036-2138''"
    by (simp add: vattenfall_tx_def)
  have prefix: "getCountryFromVAT ''SE556036-2138'' = Some ''SE''"
    by code_simp
  have cache: "getVATCache guide_db ''SE556036-2138'' 0 = (Inr (Some vattenfall_vat), 0)"
    by (simp add: guide_db_def empty_db_def)
  have valid: "vc_is_valid vattenfall_vat"
    and nace: "vc_nace_code vattenfall_vat = Some ''35.11''" "''35.11'' \<noteq> []"
    by (simp_all add: vattenfall_vat_def)
  have found: "getEmissionFactorTier1 ''35.11''
                  (if truthy (tx_supplier_country vattenfall_tx)
                   then the (tx_supplier_country vattenfall_tx) else ''SE'')
                  guide_db (Some (extractProductHints (tx_description vattenfall_tx)))
                  (0, [(GetVATCache ''SE556036-2138'', GotVAT (Some vattenfall_vat))])
                = (Inr (Some wind_factor),
                   (0, [(GetVATCache ''SE556036-2138'', GotVAT (Some vattenfall_vat)),
                        (FindEmissionFactor (tier1_query ''35.11'' ''SE'' (Some ''wind'')),
                         GotFactor (Some wind_factor))]))"
    by code_simp
  from recognised_prefix_exact_match [OF vat prefix cache valid nace found, of None]
  have "outcome (matchTransaction vattenfall_tx guide_db None DEFAULT_CONFIG (0, []))
     = Some (M_vat_lookup, Some 1, 0.95, False)"
    by (auto simp: outcome_def)
  with vat prefix cache valid nace show ?thesis by simp
qed

section \<open>Country precedence (C9)\<close>

subsection \<open>The queries of a strategy carry the country it was given\<close>








subsection \<open>The results of a strategy report the country it was given\<close>






subsection \<open>What the VAT strategy offers\<close>












end
